theory Spec2Isabelle
  imports Complex_Main "HOL-Library.AList"
begin

section \<open>Python values\<close>

text \<open>
  The script \<^verbatim>\<open>scripts/update_music_data.py\<close> handles untyped JSON: what
  \<^verbatim>\<open>response.json()\<close> returns, and the list of dictionaries it hands to
  \<^verbatim>\<open>yaml.dump\<close>. Both are values of one datatype. A dictionary is an association
  list in insertion order (a Python dict keeps insertion order and has no duplicate key;
  lookup is \<^const>\<open>map_of\<close>). A float is a rational or one of the three special
  values the JSON parser accepts. A character of a string is a code point below 256, which
  is what \<^typ>\<open>char\<close> holds; code points beyond are outside the model, and so is the
  interpreter's optional limit on the number of digits of an integer conversion.
\<close>

datatype pyfloat = Finite rat | Infinity bool | NaN

datatype pyval =
    PNone
  | PBool bool
  | PInt int
  | PFloat pyfloat
  | PStr string
  | PList "pyval list"
  | PDict "(string \<times> pyval) list"

datatype py_error =
    KeyError string
  | TypeError
  | ValueError
  | AttributeError
  | OverflowError
  | RequestException
  | OSError

type_synonym 'a result = "py_error + 'a"

definition bind_e :: "'a result \<Rightarrow> ('a \<Rightarrow> 'b result) \<Rightarrow> 'b result" where
  "bind_e m f = (case m of Inl e \<Rightarrow> Inl e | Inr x \<Rightarrow> f x)"

text \<open>\<^verbatim>\<open>obj.get(k, d)\<close>: only a dict has the method.\<close>

fun py_get :: "pyval \<Rightarrow> string \<Rightarrow> pyval \<Rightarrow> pyval result" where
  "py_get (PDict kvs) k d = Inr (case map_of kvs k of None \<Rightarrow> d | Some v \<Rightarrow> v)"
| "py_get _ k d = Inl AttributeError"

text \<open>\<^verbatim>\<open>obj[k]\<close> with a string key \<open>k\<close>: a dict raises KeyError on a missing key;
  a list or a string wants an integer index; anything else is not subscriptable.\<close>

fun py_subscript :: "pyval \<Rightarrow> string \<Rightarrow> pyval result" where
  "py_subscript (PDict kvs) k = (case map_of kvs k of None \<Rightarrow> Inl (KeyError k) | Some v \<Rightarrow> Inr v)"
| "py_subscript _ k = Inl TypeError"

text \<open>Truthiness, as \<^verbatim>\<open>if top_artists:\<close> tests it.\<close>

fun py_truthy :: "pyval \<Rightarrow> bool" where
  "py_truthy PNone = False"
| "py_truthy (PBool b) = b"
| "py_truthy (PInt n) = (n \<noteq> 0)"
| "py_truthy (PFloat (Finite r)) = (r \<noteq> 0)"
| "py_truthy (PFloat _) = True"
| "py_truthy (PStr s) = (s \<noteq> [])"
| "py_truthy (PList xs) = (xs \<noteq> [])"
| "py_truthy (PDict kvs) = (kvs \<noteq> [])"

text \<open>Iteration, as \<^verbatim>\<open>enumerate(obj)\<close> does it: a list gives its items, a dict its
  keys, a string its characters; nothing else is iterable.\<close>

fun py_iter :: "pyval \<Rightarrow> pyval list result" where
  "py_iter (PList xs) = Inr xs"
| "py_iter (PDict kvs) = Inr (map (\<lambda>kv. PStr (fst kv)) kvs)"
| "py_iter (PStr s) = Inr (map (\<lambda>c. PStr [c]) s)"
| "py_iter _ = Inl TypeError"

text \<open>The slice \<^verbatim>\<open>obj[:5]\<close>: a list or a string is cut to its first five items; a
  dict raises (TypeError, the slice being unhashable; KeyError from Python 3.12 on, kept
  as TypeError here); anything else is not subscriptable.\<close>

fun py_slice5 :: "pyval \<Rightarrow> pyval result" where
  "py_slice5 (PList xs) = Inr (PList (take 5 xs))"
| "py_slice5 (PStr s) = Inr (PStr (take 5 s))"
| "py_slice5 _ = Inl TypeError"

section \<open>Integers and their text\<close>

definition is_digit :: "char \<Rightarrow> bool" where
  "is_digit c = (c \<in> set ''0123456789'')"

text \<open>The whitespace \<^verbatim>\<open>int\<close> drops around a literal: the six ASCII characters of C's
  \<^verbatim>\<open>isspace\<close>, and the two whitespace code points between 128 and 255 (U+0085 and
  U+00A0), which the conversion first turns into spaces. The separators 0x1C to 0x1F are
  not among them.\<close>

definition is_space :: "char \<Rightarrow> bool" where
  "is_space c = (c \<in> set [CHR '' '', CHR 0x09, CHR 0x0A, CHR 0x0B, CHR 0x0C, CHR 0x0D,
                           CHR 0x85, CHR 0xA0])"

definition strip :: "string \<Rightarrow> string" where
  "strip s = rev (dropWhile is_space (rev (dropWhile is_space s)))"

definition digit_val :: "char \<Rightarrow> int" where
  "digit_val c = int (of_char c) - 48"

definition digit_char :: "nat \<Rightarrow> char" where
  "digit_char d = ''0123456789'' ! d"

text \<open>The digits of an integer literal: a digit first and last, single underscores
  between digits.\<close>

fun valid_digits :: "string \<Rightarrow> bool" where
  "valid_digits [] = False"
| "valid_digits [c] = is_digit c"
| "valid_digits (c # d # cs) =
     (is_digit c \<and> (if d = CHR ''_'' then valid_digits cs else valid_digits (d # cs)))"

definition digits_value :: "string \<Rightarrow> int" where
  "digits_value ds = foldl (\<lambda>a c. 10 * a + digit_val c) 0 (filter (\<lambda>c. c \<noteq> CHR ''_'') ds)"

text \<open>\<^verbatim>\<open>int(s)\<close> for a string: surrounding whitespace is dropped, one sign is
  allowed, the rest is a decimal literal.\<close>

definition int_of_string :: "string \<Rightarrow> int result" where
  "int_of_string s =
     (case strip s of
        [] \<Rightarrow> Inl ValueError
      | c # cs \<Rightarrow>
          if c = CHR ''-'' then (if valid_digits cs then Inr (- digits_value cs) else Inl ValueError)
          else if c = CHR ''+'' then (if valid_digits cs then Inr (digits_value cs) else Inl ValueError)
          else if valid_digits (c # cs) then Inr (digits_value (c # cs)) else Inl ValueError)"

text \<open>\<^verbatim>\<open>int(num)\<close>: a float is truncated towards zero, a string is parsed, None and
  the containers are rejected.\<close>

fun py_int :: "pyval \<Rightarrow> int result" where
  "py_int (PInt n) = Inr n"
| "py_int (PBool b) = Inr (if b then 1 else 0)"
| "py_int (PFloat (Finite r)) = Inr (if 0 \<le> r then \<lfloor>r\<rfloor> else \<lceil>r\<rceil>)"
| "py_int (PFloat (Infinity _)) = Inl OverflowError"
| "py_int (PFloat NaN) = Inl ValueError"
| "py_int (PStr s) = int_of_string s"
| "py_int PNone = Inl TypeError"
| "py_int (PList _) = Inl TypeError"
| "py_int (PDict _) = Inl TypeError"

fun decimal :: "nat \<Rightarrow> string" where
  "decimal n = (if n < 10 then [digit_char n] else decimal (n div 10) @ [digit_char (n mod 10)])"

declare decimal.simps [simp del]

text \<open>The format specification \<^verbatim>\<open>,\<close>: a comma before every group of three digits,
  counted from the right.\<close>

fun group_thousands :: "string \<Rightarrow> string" where
  "group_thousands ds =
     (if length ds \<le> 3 then ds
      else group_thousands (take (length ds - 3) ds) @ '','' @ drop (length ds - 3) ds)"

declare group_thousands.simps [simp del]

definition str_int :: "int \<Rightarrow> string" where
  "str_int n = (if n < 0 then ''-'' @ decimal (nat (- n)) else decimal (nat n))"

definition format_comma :: "int \<Rightarrow> string" where
  "format_comma n =
     (if n < 0 then ''-'' @ group_thousands (decimal (nat (- n)))
      else group_thousands (decimal (nat n)))"

text \<open>
  \<^verbatim>\<open>def format_number(num): return f"{int(num):,}"\<close>
\<close>

definition format_number :: "pyval \<Rightarrow> string result" where
  "format_number num = bind_e (py_int num) (\<lambda>n. Inr (format_comma n))"

section \<open>What lies outside the script\<close>

text \<open>
  Two library functions are used and not defined by the repository: Python's \<^verbatim>\<open>repr\<close>
  (what an f-string writes for a float or a container) and \<^verbatim>\<open>yaml.dump\<close> with the
  options of the call (\<^verbatim>\<open>default_flow_style=False, allow_unicode=True, sort_keys=False\<close>).
  They are parameters of the model.
\<close>

record runtime =
  py_repr :: "pyval \<Rightarrow> string"
  yaml_dump :: "pyval \<Rightarrow> string"

text \<open>
  The world the process runs in: the environment variables; the remote service, as the
  combined effect of \<^verbatim>\<open>requests.get(url, params=...)\<close>, \<^verbatim>\<open>raise_for_status()\<close>
  and \<^verbatim>\<open>json()\<close>; the text \<^verbatim>\<open>datetime.now().strftime('%Y-%m-%d %H:%M:%S')\<close> gives;
  the path \<^verbatim>\<open>os.path.normpath(os.path.join(os.path.dirname(__file__), "..", "_data",
  "music.yml"))\<close>, which the place of the script and the platform's \<^verbatim>\<open>os.path\<close>
  decide; the files; which paths can be opened for writing; what was printed; and the
  requests sent so far.
\<close>

record world =
  environ :: "string \<rightharpoonup> string"
  http_get :: "string \<Rightarrow> (string \<times> pyval) list \<Rightarrow> pyval result"
  clock :: string
  output_path :: string
  files :: "string \<rightharpoonup> string"
  openable :: "string \<Rightarrow> bool"
  stdout :: "string list"
  requests :: "(string \<times> (string \<times> pyval) list) list"

type_synonym 'a io = "world \<Rightarrow> 'a result \<times> world"

definition io_bind :: "'a io \<Rightarrow> ('a \<Rightarrow> 'b io) \<Rightarrow> 'b io" where
  "io_bind m f w = (case m w of (Inl e, w') \<Rightarrow> (Inl e, w') | (Inr x, w') \<Rightarrow> f x w')"

definition io_pure :: "'a result \<Rightarrow> 'a io" where
  "io_pure r w = (r, w)"

definition py_print :: "string \<Rightarrow> unit io" where
  "py_print s w = (Inr (), w\<lparr>stdout := stdout w @ [s]\<rparr>)"

text \<open>\<^verbatim>\<open>with open(path, "w", encoding="utf-8") as f: f.write(content)\<close>. Only the
  failure to open is modelled; the file is then as it was.\<close>

definition write_file :: "string \<Rightarrow> string \<Rightarrow> unit io" where
  "write_file path content w =
     (if openable w path then (Inr (), w\<lparr>files := (files w)(path \<mapsto> content)\<rparr>)
      else (Inl OSError, w))"

section \<open>Configuration and the API client\<close>

definition LASTFM_API_KEY :: "world \<Rightarrow> string option" where
  "LASTFM_API_KEY w = environ w ''LASTFM_API_KEY''"

definition LASTFM_USERNAME :: "world \<Rightarrow> string" where
  "LASTFM_USERNAME w = (case environ w ''LASTFM_USERNAME'' of None \<Rightarrow> ''jaimeum19'' | Some u \<Rightarrow> u)"

definition BASE_URL :: string where
  "BASE_URL = ''http://ws.audioscrobbler.com/2.0/''"

text \<open>
  \<^verbatim>\<open>def api_call(method, **params):
      params.update({"method": method, "api_key": LASTFM_API_KEY, "format": "json"})
      response = requests.get(BASE_URL, params=params)
      response.raise_for_status()
      return response.json()\<close>
\<close>

definition updated_params :: "world \<Rightarrow> string \<Rightarrow> (string \<times> pyval) list \<Rightarrow> (string \<times> pyval) list" where
  "updated_params w method params =
     AList.update ''format'' (PStr ''json'')
       (AList.update ''api_key'' (case LASTFM_API_KEY w of None \<Rightarrow> PNone | Some k \<Rightarrow> PStr k)
         (AList.update ''method'' (PStr method) params))"

definition api_call :: "string \<Rightarrow> (string \<times> pyval) list \<Rightarrow> pyval io" where
  "api_call method params w =
     (let params' = updated_params w method params
      in (http_get w BASE_URL params', w\<lparr>requests := requests w @ [(BASE_URL, params')]\<rparr>))"

definition get_user_info :: "string \<Rightarrow> pyval io" where
  "get_user_info username =
     io_bind (api_call ''user.getinfo'' [(''user'', PStr username)])
       (\<lambda>data. io_pure (py_get data ''user'' (PDict [])))"

definition get_top_artists :: "string \<Rightarrow> string \<Rightarrow> int \<Rightarrow> pyval io" where
  "get_top_artists username period limit =
     io_bind (api_call ''user.gettopartists''
                [(''user'', PStr username), (''period'', PStr period), (''limit'', PInt limit)])
       (\<lambda>data. io_pure (bind_e (py_get data ''topartists'' (PDict []))
                                (\<lambda>d. py_get d ''artist'' (PList []))))"

definition get_top_tracks :: "string \<Rightarrow> string \<Rightarrow> int \<Rightarrow> pyval io" where
  "get_top_tracks username period limit =
     io_bind (api_call ''user.gettoptracks''
                [(''user'', PStr username), (''period'', PStr period), (''limit'', PInt limit)])
       (\<lambda>data. io_pure (bind_e (py_get data ''toptracks'' (PDict []))
                                (\<lambda>d. py_get d ''track'' (PList []))))"

definition get_top_albums :: "string \<Rightarrow> string \<Rightarrow> int \<Rightarrow> pyval io" where
  "get_top_albums username period limit =
     io_bind (api_call ''user.gettopalbums''
                [(''user'', PStr username), (''period'', PStr period), (''limit'', PInt limit)])
       (\<lambda>data. io_pure (bind_e (py_get data ''topalbums'' (PDict []))
                                (\<lambda>d. py_get d ''album'' (PList []))))"

definition get_recent_tracks :: "string \<Rightarrow> int \<Rightarrow> pyval io" where
  "get_recent_tracks username limit =
     io_bind (api_call ''user.getrecenttracks''
                [(''user'', PStr username), (''limit'', PInt limit)])
       (\<lambda>data. io_pure (bind_e (py_get data ''recenttracks'' (PDict []))
                                (\<lambda>d. py_get d ''track'' (PList []))))"

section \<open>The document\<close>

text \<open>What an f-string writes for \<^verbatim>\<open>{v}\<close>.\<close>

fun py_format :: "runtime \<Rightarrow> pyval \<Rightarrow> string" where
  "py_format rt (PStr s) = s"
| "py_format rt (PInt n) = str_int n"
| "py_format rt PNone = ''None''"
| "py_format rt (PBool b) = (if b then ''True'' else ''False'')"
| "py_format rt v = py_repr rt v"

text \<open>\<^verbatim>\<open>f"#{i+1}"\<close>\<close>

definition rank_key :: "nat \<Rightarrow> string" where
  "rank_key i = ''#'' @ str_int (int i + 1)"

text \<open>\<^verbatim>\<open>[f(i, x) for i, x in enumerate(xs)]\<close>, the index starting at \<open>i\<close>: the first
  item that raises ends the comprehension.\<close>

fun enumerate_map :: "(nat \<Rightarrow> pyval \<Rightarrow> pyval result) \<Rightarrow> nat \<Rightarrow> pyval list \<Rightarrow> pyval list result" where
  "enumerate_map f i [] = Inr []"
| "enumerate_map f i (x # xs) =
     bind_e (f i x) (\<lambda>y. bind_e (enumerate_map f (Suc i) xs) (\<lambda>ys. Inr (y # ys)))"

text \<open>The dictionaries of the four comprehensions (lines 103-107, 118-122, 133-137 and
  148-152 of the script), their fields evaluated in the order written.\<close>

definition artist_entry :: "runtime \<Rightarrow> nat \<Rightarrow> pyval \<Rightarrow> pyval result" where
  "artist_entry rt i artist =
     bind_e (py_subscript artist ''name'') (\<lambda>name.
     bind_e (py_subscript artist ''playcount'') (\<lambda>playcount.
     bind_e (format_number playcount) (\<lambda>plays.
     bind_e (py_get artist ''url'' (PStr [])) (\<lambda>url.
       Inr (PDict [(''key'', PStr (rank_key i)),
                   (''value'', PStr (py_format rt name @ '' ('' @ plays @ '' plays)'')),
                   (''url'', url)])))))"

definition track_entry :: "runtime \<Rightarrow> nat \<Rightarrow> pyval \<Rightarrow> pyval result" where
  "track_entry rt i track =
     bind_e (py_subscript track ''name'') (\<lambda>name.
     bind_e (py_subscript track ''artist'') (\<lambda>artist.
     bind_e (py_subscript artist ''name'') (\<lambda>artist_name.
     bind_e (py_get track ''url'' (PStr [])) (\<lambda>url.
       Inr (PDict [(''key'', PStr (rank_key i)),
                   (''value'', PStr (py_format rt name @ '' - '' @ py_format rt artist_name)),
                   (''url'', url)])))))"

definition album_entry :: "runtime \<Rightarrow> nat \<Rightarrow> pyval \<Rightarrow> pyval result" where
  "album_entry rt i album =
     bind_e (py_subscript album ''name'') (\<lambda>name.
     bind_e (py_subscript album ''artist'') (\<lambda>artist.
     bind_e (py_subscript artist ''name'') (\<lambda>artist_name.
     bind_e (py_get album ''url'' (PStr [])) (\<lambda>url.
       Inr (PDict [(''key'', PStr (rank_key i)),
                   (''value'', PStr (py_format rt name @ '' - '' @ py_format rt artist_name)),
                   (''url'', url)])))))"

text \<open>\<^verbatim>\<open>f"{track['name']} - {track['artist'].get('#text', track['artist'])}"\<close>\<close>

definition recent_entry :: "runtime \<Rightarrow> nat \<Rightarrow> pyval \<Rightarrow> pyval result" where
  "recent_entry rt i track =
     bind_e (py_subscript track ''name'') (\<lambda>name.
     bind_e (py_subscript track ''artist'') (\<lambda>artist.
     bind_e (py_subscript track ''artist'') (\<lambda>fallback.
     bind_e (py_get artist ''#text'' fallback) (\<lambda>artist_text.
     bind_e (py_get track ''url'' (PStr [])) (\<lambda>url.
       Inr (PDict [(''key'', PStr (rank_key i)),
                   (''value'', PStr (py_format rt name @ '' - '' @ py_format rt artist_text)),
                   (''url'', url)]))))))"

definition category :: "string \<Rightarrow> pyval list \<Rightarrow> pyval" where
  "category title items = PDict [(''key'', PStr title), (''value'', PList items)]"

text \<open>Lines 89-96: the statistics, appended whatever the user information holds.\<close>

definition listening_statistics :: "string \<Rightarrow> pyval \<Rightarrow> pyval result" where
  "listening_statistics username user_info =
     bind_e (py_get user_info ''playcount'' (PInt 0)) (\<lambda>playcount.
     bind_e (format_number playcount) (\<lambda>total.
     bind_e (py_get user_info ''url'' (PStr (''https://www.last.fm/user/'' @ username))) (\<lambda>url.
       Inr (category ''Listening Statistics''
              [PDict [(''key'', PStr ''Total Scrobbles''), (''value'', PStr total)],
               PDict [(''key'', PStr ''Last.fm Profile''), (''value'', PStr username),
                      (''url'', url)]]))))"

text \<open>Lines 99-156: each of the four blocks appends one entry when its source is truthy
  and nothing otherwise; the result is the list of entries appended.\<close>

definition top_artists_block :: "runtime \<Rightarrow> pyval \<Rightarrow> pyval list result" where
  "top_artists_block rt top_artists =
     (if py_truthy top_artists
      then bind_e (py_iter top_artists) (\<lambda>xs.
           bind_e (enumerate_map (artist_entry rt) 0 xs) (\<lambda>items.
             Inr [category ''Top Artists'' items]))
      else Inr [])"

definition top_tracks_block :: "runtime \<Rightarrow> pyval \<Rightarrow> pyval list result" where
  "top_tracks_block rt top_tracks =
     (if py_truthy top_tracks
      then bind_e (py_iter top_tracks) (\<lambda>xs.
           bind_e (enumerate_map (track_entry rt) 0 xs) (\<lambda>items.
             Inr [category ''Top Tracks'' items]))
      else Inr [])"

definition top_albums_block :: "runtime \<Rightarrow> pyval \<Rightarrow> pyval list result" where
  "top_albums_block rt top_albums =
     (if py_truthy top_albums
      then bind_e (py_iter top_albums) (\<lambda>xs.
           bind_e (enumerate_map (album_entry rt) 0 xs) (\<lambda>items.
             Inr [category ''Top Albums'' items]))
      else Inr [])"

definition recently_played_block :: "runtime \<Rightarrow> pyval \<Rightarrow> pyval list result" where
  "recently_played_block rt recent_tracks =
     (if py_truthy recent_tracks
      then bind_e (py_slice5 recent_tracks) (\<lambda>first5.
           bind_e (py_iter first5) (\<lambda>xs.
           bind_e (enumerate_map (recent_entry rt) 0 xs) (\<lambda>items.
             Inr [category ''Recently Played'' items])))
      else Inr [])"

definition return_link :: pyval where
  "return_link = PDict [(''key'', PStr ''return''), (''value'', PStr ''previous page''),
                        (''url'', PStr ''https://jaimeum.github.io'')]"

text \<open>Lines 86-163 of \<^verbatim>\<open>generate_music_yaml\<close>: the list \<^verbatim>\<open>music_data\<close>.\<close>

definition music_data :: "runtime \<Rightarrow> string \<Rightarrow> pyval \<Rightarrow> pyval \<Rightarrow> pyval \<Rightarrow> pyval \<Rightarrow> pyval \<Rightarrow> pyval list result" where
  "music_data rt username user_info top_artists top_tracks top_albums recent_tracks =
     bind_e (listening_statistics username user_info) (\<lambda>stats.
     bind_e (top_artists_block rt top_artists) (\<lambda>artists.
     bind_e (top_tracks_block rt top_tracks) (\<lambda>tracks.
     bind_e (top_albums_block rt top_albums) (\<lambda>albums.
     bind_e (recently_played_block rt recent_tracks) (\<lambda>recent.
       Inr ([stats] @ artists @ tracks @ albums @ recent @ [return_link]))))))"

definition generate_music_yaml :: "runtime \<Rightarrow> string \<Rightarrow> string io" where
  "generate_music_yaml rt username =
     io_bind (py_print (''Fetching data for user: '' @ username)) (\<lambda>_.
     io_bind (get_user_info username) (\<lambda>user_info.
     io_bind (get_top_artists username ''overall'' 5) (\<lambda>top_artists.
     io_bind (get_top_tracks username ''overall'' 5) (\<lambda>top_tracks.
     io_bind (get_top_albums username ''overall'' 5) (\<lambda>top_albums.
     io_bind (get_recent_tracks username 5) (\<lambda>recent_tracks.
       io_pure (bind_e (music_data rt username user_info top_artists top_tracks
                          top_albums recent_tracks)
                  (\<lambda>doc. Inr (yaml_dump rt (PList doc))))))))))"

section \<open>The program\<close>

definition main :: "runtime \<Rightarrow> int io" where
  "main rt w =
     (if (case LASTFM_API_KEY w of None \<Rightarrow> True | Some k \<Rightarrow> k = [])
      then io_bind (py_print ''Error: LASTFM_API_KEY environment variable is not set.'') (\<lambda>_.
           io_bind (py_print ''Get an API key at: https://www.last.fm/api/account/create'') (\<lambda>_.
             io_pure (Inr 1))) w
      else io_bind (generate_music_yaml rt (LASTFM_USERNAME w)) (\<lambda>yaml_content.
           io_bind (write_file (output_path w) yaml_content) (\<lambda>_.
           io_bind (py_print (''Successfully updated '' @ output_path w)) (\<lambda>_.
           io_bind (\<lambda>w'. py_print (''Last updated: '' @ clock w') w') (\<lambda>_.
             io_pure (Inr 0))))) w)"

text \<open>\<^verbatim>\<open>exit(main())\<close>: the status is what \<^verbatim>\<open>main\<close> returns; an exception that
  nothing catches ends the process with status 1.\<close>

definition exit_status :: "int result \<Rightarrow> int" where
  "exit_status r = (case r of Inl e \<Rightarrow> 1 | Inr c \<Rightarrow> c)"

section \<open>Sample inputs\<close>

text \<open>A runtime whose \<^verbatim>\<open>repr\<close> is a placeholder and whose dump lists the keys of the
  top-level entries, one to a line.\<close>

definition sample_dump :: "pyval \<Rightarrow> string" where
  "sample_dump v =
     (case v of
        PList es \<Rightarrow> concat (map (\<lambda>e. case py_subscript e ''key'' of
                                         Inr (PStr k) \<Rightarrow> ''- key: '' @ k @ [CHR 0x0A]
                                       | _ \<Rightarrow> []) es)
      | _ \<Rightarrow> [])"

definition sample_runtime :: runtime where
  "sample_runtime = \<lparr>py_repr = (\<lambda>v. ''<repr>''), yaml_dump = sample_dump\<rparr>"

text \<open>A service that knows one artist and one recent track, has no top track (the
  key is missing) and no top album (the list is empty).\<close>

definition sample_service :: "string \<Rightarrow> (string \<times> pyval) list \<Rightarrow> pyval result" where
  "sample_service url params =
     (case map_of params ''method'' of
        Some (PStr m) \<Rightarrow>
          if m = ''user.getinfo'' then
            Inr (PDict [(''user'', PDict [(''playcount'', PStr ''1234567'')])])
          else if m = ''user.gettopartists'' then
            Inr (PDict [(''topartists'', PDict [(''artist'', PList
                   [PDict [(''name'', PStr ''Muse''), (''playcount'', PStr ''1500''),
                           (''url'', PStr ''https://www.last.fm/music/Muse'')]])])])
          else if m = ''user.gettoptracks'' then Inr (PDict [])
          else if m = ''user.gettopalbums'' then
            Inr (PDict [(''topalbums'', PDict [(''album'', PList [])])])
          else if m = ''user.getrecenttracks'' then
            Inr (PDict [(''recenttracks'', PDict [(''track'', PList
                   [PDict [(''name'', PStr ''Time''),
                           (''artist'', PDict [(''#text'', PStr ''Pink Floyd'')])]])])])
          else Inl RequestException
      | _ \<Rightarrow> Inl RequestException)"

definition sample_world :: world where
  "sample_world =
     \<lparr>environ = [''LASTFM_API_KEY'' \<mapsto> ''secret''],
      http_get = sample_service,
      clock = ''2024-01-01 00:00:00'',
      output_path = ''/site/_data/music.yml'',
      files = [''/site/_data/music.yml'' \<mapsto> ''old content''],
      openable = (\<lambda>p. True),
      stdout = [],
      requests = []\<rparr>"

text \<open>Eight recent tracks, and the entries of the first five.\<close>

definition sample_recent :: "string \<Rightarrow> pyval" where
  "sample_recent title =
     PDict [(''name'', PStr title), (''artist'', PDict [(''#text'', PStr ''Pink Floyd'')]),
            (''url'', PStr (''https://www.last.fm/music/Pink+Floyd/_/'' @ title))]"

definition eight_recent :: "pyval list" where
  "eight_recent = map sample_recent [''Time'', ''Money'', ''Echoes'', ''Dogs'', ''Sheep'',
                                     ''Pigs'', ''Mother'', ''Brain Damage'']"

definition first_five_entries :: "pyval list" where
  "first_five_entries =
       [PDict [(''key'', PStr ''#1''), (''value'', PStr ''Time - Pink Floyd''),
               (''url'', PStr ''https://www.last.fm/music/Pink+Floyd/_/Time'')],
        PDict [(''key'', PStr ''#2''), (''value'', PStr ''Money - Pink Floyd''),
               (''url'', PStr ''https://www.last.fm/music/Pink+Floyd/_/Money'')],
        PDict [(''key'', PStr ''#3''), (''value'', PStr ''Echoes - Pink Floyd''),
               (''url'', PStr ''https://www.last.fm/music/Pink+Floyd/_/Echoes'')],
        PDict [(''key'', PStr ''#4''), (''value'', PStr ''Dogs - Pink Floyd''),
               (''url'', PStr ''https://www.last.fm/music/Pink+Floyd/_/Dogs'')],
        PDict [(''key'', PStr ''#5''), (''value'', PStr ''Sheep - Pink Floyd''),
               (''url'', PStr ''https://www.last.fm/music/Pink+Floyd/_/Sheep'')]]"

text \<open>The sample service, its one recent track having a plain string as artist.\<close>

definition plain_artist_service :: "string \<Rightarrow> (string \<times> pyval) list \<Rightarrow> pyval result" where
  "plain_artist_service url params =
     (if map_of params ''method'' = Some (PStr ''user.getrecenttracks'')
      then Inr (PDict [(''recenttracks'', PDict [(''track'', PList
                  [PDict [(''name'', PStr ''Song''), (''artist'', PStr ''Band'')]])])])
      else sample_service url params)"

definition plain_artist_world :: world where
  "plain_artist_world = sample_world\<lparr>http_get := plain_artist_service\<rparr>"

text \<open>The sample service, its one top artist lacking the name.\<close>

definition missing_name_service :: "string \<Rightarrow> (string \<times> pyval) list \<Rightarrow> pyval result" where
  "missing_name_service url params =
     (if map_of params ''method'' = Some (PStr ''user.gettopartists'')
      then Inr (PDict [(''topartists'', PDict [(''artist'', PList
                  [PDict [(''playcount'', PStr ''1500'')]])])])
      else sample_service url params)"

definition missing_name_world :: world where
  "missing_name_world = sample_world\<lparr>http_get := missing_name_service\<rparr>"

text \<open>The sample service, the user's play count not being a number.\<close>

definition bad_count_service :: "string \<Rightarrow> (string \<times> pyval) list \<Rightarrow> pyval result" where
  "bad_count_service url params =
     (if map_of params ''method'' = Some (PStr ''user.getinfo'')
      then Inr (PDict [(''user'', PDict [(''playcount'', PStr ''n/a'')])])
      else sample_service url params)"

definition bad_count_world :: world where
  "bad_count_world = sample_world\<lparr>http_get := bad_count_service\<rparr>"

text \<open>The sample world without the API key, and with an empty one.\<close>

definition no_key_world :: world where
  "no_key_world = sample_world\<lparr>environ := Map.empty\<rparr>"

definition empty_key_world :: world where
  "empty_key_world = sample_world\<lparr>environ := [''LASTFM_API_KEY'' \<mapsto> []]\<rparr>"

text \<open>The sample world at a later time, after other output, the file not yet there.\<close>

definition later_world :: world where
  "later_world = sample_world\<lparr>clock := ''2025-06-30 12:00:00'', files := Map.empty,
                               stdout := [''earlier output'']\<rparr>"

text \<open>An item with every field the four displays read, and no \<^verbatim>\<open>url\<close>.\<close>

definition full_item :: "(string \<times> pyval) list" where
  "full_item = [(''name'', PStr ''Time''), (''playcount'', PStr ''1500''),
                (''artist'', PDict [(''name'', PStr ''Pink Floyd''),
                                    (''#text'', PStr ''Pink Floyd'')])]"

text \<open>The sample service with three top artists, the play count of the second not being
  a number.\<close>

definition bad_artist_count_service :: "string \<Rightarrow> (string \<times> pyval) list \<Rightarrow> pyval result" where
  "bad_artist_count_service url params =
     (if map_of params ''method'' = Some (PStr ''user.gettopartists'')
      then Inr (PDict [(''topartists'', PDict [(''artist'', PList
                  [PDict [(''name'', PStr ''Muse''), (''playcount'', PStr ''1500'')],
                   PDict [(''name'', PStr ''Queen''), (''playcount'', PStr ''n/a'')],
                   PDict [(''name'', PStr ''Rush''), (''playcount'', PStr ''800'')]])])])
      else sample_service url params)"

definition bad_artist_count_world :: world where
  "bad_artist_count_world = sample_world\<lparr>http_get := bad_artist_count_service\<rparr>"

section \<open>Basic facts\<close>

lemma bind_e_Inl [simp]: "bind_e (Inl e) f = Inl e"
  by (simp add: bind_e_def)

lemma bind_e_Inr [simp]: "bind_e (Inr x) f = f x"
  by (simp add: bind_e_def)

lemma bind_e_eq_Inr: "bind_e m f = Inr y \<longleftrightarrow> (\<exists>x. m = Inr x \<and> f x = Inr y)"
  by (cases m) simp_all

lemma bind_e_eq_Inl: "bind_e m f = Inl e \<longleftrightarrow> m = Inl e \<or> (\<exists>x. m = Inr x \<and> f x = Inl e)"
  by (cases m) simp_all

lemma io_bind_split:
  "io_bind m f w = (case fst (m w) of Inl e \<Rightarrow> (Inl e, snd (m w)) | Inr x \<Rightarrow> f x (snd (m w)))"
  by (simp add: io_bind_def split: prod.splits sum.splits)

section \<open>Number formatting\<close>

lemmas eval_number = format_number_def format_comma_def str_int_def decimal.simps
  group_thousands.simps digit_char_def int_of_string_def strip_def is_space_def is_digit_def
  digits_value_def digit_val_def

lemma valid_digits_chars:
  "valid_digits ds \<Longrightarrow> c \<in> set ds \<Longrightarrow> is_digit c \<or> c = CHR ''_''"
  by (induction ds rule: valid_digits.induct) (auto split: if_splits)

lemma set_strip: "c \<in> set s \<Longrightarrow> \<not> is_space c \<Longrightarrow> c \<in> set (strip s)"
proof -
  assume c: "c \<in> set s" and n: "\<not> is_space c"
  have d: "x \<in> set xs \<Longrightarrow> \<not> is_space x \<Longrightarrow> x \<in> set (dropWhile is_space xs)" for x xs
    by (induction xs) auto
  from d [OF c n] have "c \<in> set (rev (dropWhile is_space s))" by simp
  from d [OF this n] show ?thesis by (simp add: strip_def)
qed

text \<open>A string holding a character that is no digit, no whitespace, no sign and no
  underscore is not an integer literal.\<close>

lemma int_of_string_non_numeric:
  assumes "c \<in> set s" and "\<not> is_digit c" and "\<not> is_space c"
    and "c \<noteq> CHR ''+''" and "c \<noteq> CHR ''-''" and "c \<noteq> CHR ''_''"
  shows "int_of_string s = Inl ValueError"
proof -
  from set_strip [OF assms(1,3)] have m: "c \<in> set (strip s)" .
  then obtain x xs where x: "strip s = x # xs" by (cases "strip s") auto
  have "\<not> valid_digits (x # xs)" using valid_digits_chars [of "x # xs" c] m x assms by auto
  moreover have "\<not> valid_digits xs" if "x = CHR ''+'' \<or> x = CHR ''-''"
    using valid_digits_chars [of xs c] m x assms that by auto
  ultimately show ?thesis by (auto simp: int_of_string_def x)
qed

lemma py_int_Inl_cases:
  "py_int v = Inl e \<longleftrightarrow>
     ((v = PNone \<or> (\<exists>xs. v = PList xs) \<or> (\<exists>kvs. v = PDict kvs)) \<and> e = TypeError) \<or>
     (\<exists>s. v = PStr s \<and> int_of_string s = Inl e) \<or>
     (v = PFloat NaN \<and> e = ValueError) \<or>
     ((\<exists>b. v = PFloat (Infinity b)) \<and> e = OverflowError)"
proof (cases v)
  case (PFloat f)
  then show ?thesis by (cases f) auto
qed auto

text \<open>The two characters that distinguish the whitespace of \<^verbatim>\<open>int\<close>: a literal after the
  separator 0x1C is rejected, one after the no-break space is read.\<close>

lemma int_whitespace_examples:
  "py_int (PStr (CHR 0x1C # ''42'')) = Inl ValueError"
  "py_int (PStr (CHR 0xA0 # ''42'')) = Inr 42"
  "format_number (PStr (CHR 0xA0 # ''42'')) = Inr ''42''"
  by (simp_all add: eval_number)

lemma digit_char_props:
  assumes "d < 10"
  shows "is_digit (digit_char d)" and "digit_val (digit_char d) = int d"
    and "\<not> is_space (digit_char d)" and "digit_char d \<noteq> CHR '',''"
    and "digit_char d \<noteq> CHR ''_''" and "digit_char d \<noteq> CHR ''-''" and "digit_char d \<noteq> CHR ''+''"
proof -
  from assms have "d \<in> {0, 1, 2, 3, 4, 5, 6, 7, 8, 9}" by auto
  then show "is_digit (digit_char d)" and "digit_val (digit_char d) = int d"
    and "\<not> is_space (digit_char d)" and "digit_char d \<noteq> CHR '',''"
    and "digit_char d \<noteq> CHR ''_''" and "digit_char d \<noteq> CHR ''-''" and "digit_char d \<noteq> CHR ''+''"
    by (auto simp: digit_char_def is_digit_def digit_val_def is_space_def)
qed

lemma decimal_nonempty: "decimal n \<noteq> []"
  by (subst decimal.simps) simp

lemma decimal_chars: "c \<in> set (decimal n) \<Longrightarrow> \<exists>d<10. c = digit_char d"
proof (induction n rule: decimal.induct)
  case (1 n)
  show ?case
  proof (cases "n < 10")
    case True
    with "1.prems" show ?thesis by (auto simp: decimal.simps [of n])
  next
    case False
    with "1.prems" have "c \<in> set (decimal (n div 10)) \<or> c = digit_char (n mod 10)"
      by (auto simp: decimal.simps [of n])
    then show ?thesis
    proof
      assume "c \<in> set (decimal (n div 10))"
      with "1.IH" False show ?thesis by simp
    next
      assume "c = digit_char (n mod 10)"
      then show ?thesis by (intro exI [of _ "n mod 10"]) simp
    qed
  qed
qed

lemma valid_digits_all: "ds \<noteq> [] \<Longrightarrow> \<forall>c\<in>set ds. is_digit c \<and> c \<noteq> CHR ''_'' \<Longrightarrow> valid_digits ds"
  by (induction ds rule: valid_digits.induct) auto

lemma digits_value_snoc:
  "c \<noteq> CHR ''_'' \<Longrightarrow> digits_value (ds @ [c]) = 10 * digits_value ds + digit_val c"
  by (simp add: digits_value_def)

lemma int_div_mod_10: "10 * int (n div 10) + int (n mod 10) = int n"
proof -
  have "int n = int (10 * (n div 10) + n mod 10)" by simp
  also have "\<dots> = 10 * int (n div 10) + int (n mod 10)"
    by (simp only: of_nat_add of_nat_mult of_nat_numeral)
  finally show ?thesis by simp
qed

lemma digits_value_decimal: "digits_value (decimal n) = int n"
proof (induction n rule: decimal.induct)
  case (1 n)
  show ?case
  proof (cases "n < 10")
    case True
    then show ?thesis
      by (simp add: decimal.simps [of n] digits_value_def digit_char_props)
  next
    case False
    have "digits_value (decimal n) =
            10 * digits_value (decimal (n div 10)) + digit_val (digit_char (n mod 10))"
      using False by (simp add: decimal.simps [of n] digits_value_snoc digit_char_props)
    also have "\<dots> = 10 * int (n div 10) + int (n mod 10)"
      using False "1.IH" by (simp add: digit_char_props)
    also have "\<dots> = int n" by (rule int_div_mod_10)
    finally show ?thesis .
  qed
qed

lemma dropWhile_id: "xs = [] \<or> \<not> P (hd xs) \<Longrightarrow> dropWhile P xs = xs"
  by (cases xs) auto

lemma strip_id:
  assumes "s \<noteq> []" and "\<not> is_space (hd s)" and "\<not> is_space (last s)"
  shows "strip s = s"
proof -
  have "dropWhile is_space s = s" using assms by (simp add: dropWhile_id)
  moreover have "dropWhile is_space (rev s) = rev s"
    using assms by (intro dropWhile_id) (simp add: hd_rev)
  ultimately show ?thesis by (simp add: strip_def)
qed

lemma decimal_facts:
  shows "valid_digits (decimal n)" and "\<not> is_space (hd (decimal n))"
    and "\<not> is_space (last (decimal n))" and "hd (decimal n) \<noteq> CHR ''-''"
    and "hd (decimal n) \<noteq> CHR ''+''" and "CHR '','' \<notin> set (decimal n)"
proof -
  have all: "is_digit c \<and> c \<noteq> CHR ''_'' \<and> \<not> is_space c \<and> c \<noteq> CHR ''-'' \<and> c \<noteq> CHR ''+'' \<and> c \<noteq> CHR '',''"
    if "c \<in> set (decimal n)" for c
    using decimal_chars [OF that] by (auto simp: digit_char_props)
  have h: "hd (decimal n) \<in> set (decimal n)" and l: "last (decimal n) \<in> set (decimal n)"
    using decimal_nonempty by simp_all
  show "valid_digits (decimal n)" using all by (intro valid_digits_all decimal_nonempty) blast
  show "\<not> is_space (hd (decimal n))" "\<not> is_space (last (decimal n))"
    "hd (decimal n) \<noteq> CHR ''-''" "hd (decimal n) \<noteq> CHR ''+''"
    using all [OF h] all [OF l] by simp_all
  show "CHR '','' \<notin> set (decimal n)" using all by blast
qed

text \<open>The decimal text of an integer is read back as that integer.\<close>

lemma int_of_string_str_int: "int_of_string (str_int n) = Inr n"
proof (cases "n < 0")
  case False
  obtain c cs where d: "decimal (nat n) = c # cs"
    using decimal_nonempty [of "nat n"] by (cases "decimal (nat n)") auto
  have "strip (decimal (nat n)) = decimal (nat n)"
    by (intro strip_id decimal_nonempty decimal_facts)
  moreover have "c \<noteq> CHR ''-''" "c \<noteq> CHR ''+''" "valid_digits (c # cs)"
    using decimal_facts [of "nat n"] by (simp_all add: d)
  moreover have "digits_value (c # cs) = n"
    using digits_value_decimal [of "nat n"] False by (simp add: d)
  ultimately show ?thesis using False by (simp add: int_of_string_def str_int_def d)
next
  case True
  let ?ds = "decimal (nat (- n))"
  have "?ds \<noteq> []" by (rule decimal_nonempty)
  then have "last (CHR ''-'' # ?ds) = last ?ds" by simp
  then have "strip (CHR ''-'' # ?ds) = CHR ''-'' # ?ds"
    using decimal_facts(3) [of "nat (- n)"] by (intro strip_id) (simp_all add: is_space_def)
  moreover have "valid_digits ?ds" by (rule decimal_facts)
  moreover have "digits_value ?ds = - n" using digits_value_decimal [of "nat (- n)"] True by simp
  ultimately show ?thesis using True by (simp add: int_of_string_def str_int_def)
qed

text \<open>Grouping only inserts commas: without them the digits are as before.\<close>

lemma group_thousands_digits:
  "filter (\<lambda>c. c \<noteq> CHR '','') (group_thousands ds) = filter (\<lambda>c. c \<noteq> CHR '','') ds"
proof (induction ds rule: group_thousands.induct)
  case (1 ds)
  show ?case
  proof (cases "length ds \<le> 3")
    case True
    then show ?thesis by (simp add: group_thousands.simps [of ds])
  next
    case False
    have "filter (\<lambda>c. c \<noteq> CHR '','') (group_thousands ds) =
            filter (\<lambda>c. c \<noteq> CHR '','') (take (length ds - 3) ds) @
            filter (\<lambda>c. c \<noteq> CHR '','') (drop (length ds - 3) ds)"
      using False "1.IH" by (simp add: group_thousands.simps [of ds])
    also have "\<dots> = filter (\<lambda>c. c \<noteq> CHR '','') (take (length ds - 3) ds @ drop (length ds - 3) ds)"
      by (simp only: filter_append)
    finally show ?thesis by simp
  qed
qed

lemma group_thousands_length:
  "length (group_thousands ds) = length ds + (length ds - 1) div 3"
proof (induction ds rule: group_thousands.induct)
  case (1 ds)
  show ?case
  proof (cases "length ds \<le> 3")
    case True
    then show ?thesis by (simp add: group_thousands.simps [of ds])
  next
    case False
    then have "length (group_thousands ds) =
                 length (group_thousands (take (length ds - 3) ds)) + 1 + 3"
      by (simp add: group_thousands.simps [of ds])
    also have "\<dots> = (length ds - 3) + (length ds - 3 - 1) div 3 + 1 + 3"
      using False "1.IH" by simp
    also have "\<dots> = length ds + (length ds - 1) div 3" using False by simp
    finally show ?thesis .
  qed
qed

text \<open>Counted from the right, every fourth character of the grouped digits is a comma,
  and no other is.\<close>

lemma group_thousands_commas:
  assumes "CHR '','' \<notin> set ds" and "i < length (group_thousands ds)"
  shows "(rev (group_thousands ds) ! i = CHR '','') = (i mod 4 = 3)"
  using assms
proof (induction ds arbitrary: i rule: group_thousands.induct)
  case (1 ds)
  show ?case
  proof (cases "length ds \<le> 3")
    case True
    with "1.prems" have i: "i < length ds" "i < 3" and g: "group_thousands ds = ds"
      by (simp_all add: group_thousands.simps [of ds])
    from i have "rev ds ! i \<in> set ds" by (metis length_rev nth_mem set_rev)
    with "1.prems"(1) have "rev ds ! i \<noteq> CHR '',''" by auto
    with i g show ?thesis by simp
  next
    case False
    let ?a = "take (length ds - 3) ds" and ?b = "drop (length ds - 3) ds"
    have g: "rev (group_thousands ds) = rev ?b @ CHR '','' # rev (group_thousands ?a)"
      using False by (simp add: group_thousands.simps [of ds])
    have lb: "length (rev ?b) = 3" using False by simp
    have a: "CHR '','' \<notin> set ?a" using "1.prems"(1) by (auto dest: in_set_takeD)
    consider "i < 3" | "i = 3" | "i > 3" by linarith
    then show ?thesis
    proof cases
      case 1
      then have "rev (group_thousands ds) ! i = rev ?b ! i" using lb by (simp add: g nth_append)
      moreover have "rev ?b ! i \<in> set ?b" using 1 lb by (metis nth_mem set_rev)
      then have "rev ?b ! i \<noteq> CHR '',''" using "1.prems"(1) by (auto dest: in_set_dropD)
      ultimately show ?thesis using 1 by simp
    next
      case 2
      then show ?thesis using lb by (simp add: g nth_append)
    next
      case 3
      define j where "j = i - 4"
      have j: "i = 3 + Suc j" using 3 by (simp add: j_def)
      have "rev (group_thousands ds) ! i =
              (rev ?b @ CHR '','' # rev (group_thousands ?a)) ! (length (rev ?b) + Suc j)"
        by (simp only: g j lb)
      also have "\<dots> = (CHR '','' # rev (group_thousands ?a)) ! Suc j"
        by (rule nth_append_length_plus)
      finally have e: "rev (group_thousands ds) ! i = rev (group_thousands ?a) ! j" by simp
      have "j < length (group_thousands ?a)"
        using "1.prems"(2) j False by (simp add: group_thousands.simps [of ds])
      from "1.IH" [OF False a this] e
      have "(rev (group_thousands ds) ! i = CHR '','') = (j mod 4 = 3)"
        by simp
      also have "\<dots> = (i mod 4 = 3)" using j by presburger
      finally show ?thesis .
    qed
  qed
qed

text \<open>
  C7: \<^verbatim>\<open>format_number\<close> coerces its input with \<^verbatim>\<open>int\<close> first, so an input that
  \<^verbatim>\<open>int\<close> reads as \<open>n\<close> is formatted as \<open>n\<close> is, and the decimal text of every integer
  is read as that integer. The result for an integer is its sign and its digits grouped:
  without the commas it is the decimal text; counted from the right, the commas stand at
  every fourth place of the grouped digits and nowhere else, none leading. So
  \<^verbatim>\<open>format_number(1234567)\<close> is \<^verbatim>\<open>"1,234,567"\<close>, \<^verbatim>\<open>format_number(0)\<close> is \<^verbatim>\<open>"0"\<close> and
  \<^verbatim>\<open>format_number("42")\<close> is \<^verbatim>\<open>"42"\<close>.
\<close>

theorem format_number_groups:
  "format_number (PInt 1234567) = Inr ''1,234,567'' \<and>
   format_number (PInt 0) = Inr ''0'' \<and>
   format_number (PStr ''42'') = Inr ''42'' \<and>
   (py_int num = Inr n \<longrightarrow> format_number num = format_number (PInt n)) \<and>
   py_int (PStr (str_int n)) = Inr n \<and>
   (\<exists>r. format_number (PInt n) = Inr ((if n < 0 then ''-'' else []) @ r) \<and>
        filter (\<lambda>c. c \<noteq> CHR '','') ((if n < 0 then ''-'' else []) @ r) = str_int n \<and>
        length r = length (filter (\<lambda>c. c \<noteq> CHR '','') r) +
                   (length (filter (\<lambda>c. c \<noteq> CHR '','') r) - 1) div 3 \<and>
        (\<forall>i<length r. (rev r ! i = CHR '','') = (i mod 4 = 3)))"
proof (intro conjI impI)
  show "format_number (PInt 1234567) = Inr ''1,234,567''"
    "format_number (PInt 0) = Inr ''0''"
    "format_number (PStr ''42'') = Inr ''42''"
    by (simp_all add: eval_number)
  show "format_number num = format_number (PInt n)" if "py_int num = Inr n"
    using that by (simp add: format_number_def)
  show "py_int (PStr (str_int n)) = Inr n" by (simp add: int_of_string_str_int)
  let ?ds = "decimal (nat \<bar>n\<bar>)"
  let ?r = "group_thousands ?ds"
  have c: "CHR '','' \<notin> set ?ds" by (rule decimal_facts)
  have f: "filter (\<lambda>c. c \<noteq> CHR '','') (group_thousands (decimal m)) = decimal m" for m
    using decimal_facts(6) [of m] by (auto simp: group_thousands_digits filter_id_conv)
  have 1: "format_number (PInt n) = Inr ((if n < 0 then ''-'' else []) @ ?r)"
    by (simp add: format_number_def format_comma_def abs_if)
  have 2: "filter (\<lambda>c. c \<noteq> CHR '','') ((if n < 0 then ''-'' else []) @ ?r) = str_int n"
    by (simp add: f str_int_def abs_if)
  have 3: "length ?r = length (filter (\<lambda>c. c \<noteq> CHR '','') ?r) +
                   (length (filter (\<lambda>c. c \<noteq> CHR '','') ?r) - 1) div 3"
    by (simp only: f group_thousands_length)
  have 4: "\<forall>i<length ?r. (rev ?r ! i = CHR '','') = (i mod 4 = 3)"
    using group_thousands_commas [OF c] by blast
  from 1 2 3 4 show "\<exists>r. format_number (PInt n) = Inr ((if n < 0 then ''-'' else []) @ r) \<and>
        filter (\<lambda>c. c \<noteq> CHR '','') ((if n < 0 then ''-'' else []) @ r) = str_int n \<and>
        length r = length (filter (\<lambda>c. c \<noteq> CHR '','') r) +
                   (length (filter (\<lambda>c. c \<noteq> CHR '','') r) - 1) div 3 \<and>
        (\<forall>i<length r. (rev r ! i = CHR '','') = (i mod 4 = 3))"
    by (intro exI [of _ ?r] conjI)
qed

theorem format_number_groups_witness:
  "py_int (PStr '' +1_234_567 '') = Inr 1234567 \<and>
   format_number (PStr '' +1_234_567 '') = Inr ''1,234,567'' \<and>
   py_int (PStr ''-1234567'') = Inr (- 1234567) \<and>
   format_number (PInt (- 1234567)) = Inr ''-1,234,567'' \<and>
   (3 :: nat) < length ''1,234,567'' \<and>
   rev ''1,234,567'' ! 3 = CHR '','' \<and>
   (7 :: nat) < length ''1,234,567'' \<and>
   rev ''1,234,567'' ! 7 = CHR '',''"
proof -
  have p: "py_int (PStr '' +1_234_567 '') = Inr 1234567"
    by (simp add: eval_number)
  have s: "str_int (- 1234567) = ''-1234567''"
    by (simp add: eval_number)
  have m: "format_number (PInt (- 1234567)) = Inr ''-1,234,567''"
    by (simp add: eval_number)
  from format_number_groups [of "PStr '' +1_234_567 ''" 1234567] p
  obtain r where
    e: "format_number (PInt 1234567) = Inr ''1,234,567''"
       "format_number (PStr '' +1_234_567 '') = format_number (PInt 1234567)" and
    r: "format_number (PInt 1234567) = Inr ((if (1234567 :: int) < 0 then ''-'' else []) @ r)"
       "\<forall>i<length r. (rev r ! i = CHR '','') = (i mod 4 = 3)"
    by blast
  from e(1) r(1) have "r = ''1,234,567''" by simp
  with r(2) have "rev ''1,234,567'' ! 3 = CHR '',''" "rev ''1,234,567'' ! 7 = CHR '',''"
    by auto
  moreover from format_number_groups [of PNone "- 1234567"] s
  have "py_int (PStr ''-1234567'') = Inr (- 1234567)" by simp
  ultimately show ?thesis using p e m by simp
qed

section \<open>The fetches and the run\<close>

lemmas fetch_defs = get_user_info_def get_top_artists_def get_top_tracks_def
  get_top_albums_def get_recent_tracks_def

lemma snd_fetch [simp]:
  "snd (get_user_info u w) =
     w\<lparr>requests := requests w @ [(BASE_URL, updated_params w ''user.getinfo'' [(''user'', PStr u)])]\<rparr>"
  "snd (get_top_artists u p l w) =
     w\<lparr>requests := requests w @ [(BASE_URL, updated_params w ''user.gettopartists''
         [(''user'', PStr u), (''period'', PStr p), (''limit'', PInt l)])]\<rparr>"
  "snd (get_top_tracks u p l w) =
     w\<lparr>requests := requests w @ [(BASE_URL, updated_params w ''user.gettoptracks''
         [(''user'', PStr u), (''period'', PStr p), (''limit'', PInt l)])]\<rparr>"
  "snd (get_top_albums u p l w) =
     w\<lparr>requests := requests w @ [(BASE_URL, updated_params w ''user.gettopalbums''
         [(''user'', PStr u), (''period'', PStr p), (''limit'', PInt l)])]\<rparr>"
  "snd (get_recent_tracks u l w) =
     w\<lparr>requests := requests w @ [(BASE_URL, updated_params w ''user.getrecenttracks''
         [(''user'', PStr u), (''limit'', PInt l)])]\<rparr>"
  by (simp_all add: fetch_defs io_bind_split io_pure_def api_call_def Let_def
        split: sum.splits)

lemma fst_fetch_indep:
  assumes "LASTFM_API_KEY w' = LASTFM_API_KEY w" "http_get w' = http_get w"
  shows "fst (get_user_info u w') = fst (get_user_info u w)"
    and "fst (get_top_artists u p l w') = fst (get_top_artists u p l w)"
    and "fst (get_top_tracks u p l w') = fst (get_top_tracks u p l w)"
    and "fst (get_top_albums u p l w') = fst (get_top_albums u p l w)"
    and "fst (get_recent_tracks u l w') = fst (get_recent_tracks u l w)"
  using assms
  by (simp_all add: fetch_defs io_bind_split io_pure_def api_call_def Let_def
        updated_params_def split: sum.splits)

lemma fst_fetch_requests [simp]:
  "fst (get_user_info u (w\<lparr>requests := r\<rparr>)) = fst (get_user_info u w)"
  "fst (get_top_artists u p l (w\<lparr>requests := r\<rparr>)) = fst (get_top_artists u p l w)"
  "fst (get_top_tracks u p l (w\<lparr>requests := r\<rparr>)) = fst (get_top_tracks u p l w)"
  "fst (get_top_albums u p l (w\<lparr>requests := r\<rparr>)) = fst (get_top_albums u p l w)"
  "fst (get_recent_tracks u l (w\<lparr>requests := r\<rparr>)) = fst (get_recent_tracks u l w)"
  by (simp_all add: fetch_defs io_bind_split io_pure_def api_call_def Let_def LASTFM_API_KEY_def
        updated_params_def split: sum.splits)

lemma fst_fetch_stdout [simp]:
  "fst (get_user_info u (w\<lparr>stdout := s\<rparr>)) = fst (get_user_info u w)"
  "fst (get_top_artists u p l (w\<lparr>stdout := s\<rparr>)) = fst (get_top_artists u p l w)"
  "fst (get_top_tracks u p l (w\<lparr>stdout := s\<rparr>)) = fst (get_top_tracks u p l w)"
  "fst (get_top_albums u p l (w\<lparr>stdout := s\<rparr>)) = fst (get_top_albums u p l w)"
  "fst (get_recent_tracks u l (w\<lparr>stdout := s\<rparr>)) = fst (get_recent_tracks u l w)"
  by (simp_all add: fetch_defs io_bind_split io_pure_def api_call_def Let_def LASTFM_API_KEY_def
        updated_params_def split: sum.splits)

lemma fst_fetch_api_call:
  "fst (get_user_info u w) =
     bind_e (fst (api_call ''user.getinfo'' [(''user'', PStr u)] w))
       (\<lambda>data. py_get data ''user'' (PDict []))"
  "fst (get_top_artists u p l w) =
     bind_e (fst (api_call ''user.gettopartists''
                    [(''user'', PStr u), (''period'', PStr p), (''limit'', PInt l)] w))
       (\<lambda>data. bind_e (py_get data ''topartists'' (PDict [])) (\<lambda>d. py_get d ''artist'' (PList [])))"
  "fst (get_top_tracks u p l w) =
     bind_e (fst (api_call ''user.gettoptracks''
                    [(''user'', PStr u), (''period'', PStr p), (''limit'', PInt l)] w))
       (\<lambda>data. bind_e (py_get data ''toptracks'' (PDict [])) (\<lambda>d. py_get d ''track'' (PList [])))"
  "fst (get_top_albums u p l w) =
     bind_e (fst (api_call ''user.gettopalbums''
                    [(''user'', PStr u), (''period'', PStr p), (''limit'', PInt l)] w))
       (\<lambda>data. bind_e (py_get data ''topalbums'' (PDict [])) (\<lambda>d. py_get d ''album'' (PList [])))"
  "fst (get_recent_tracks u l w) =
     bind_e (fst (api_call ''user.getrecenttracks'' [(''user'', PStr u), (''limit'', PInt l)] w))
       (\<lambda>data. bind_e (py_get data ''recenttracks'' (PDict [])) (\<lambda>d. py_get d ''track'' (PList [])))"
  by (simp_all add: fetch_defs io_bind_split io_pure_def split: sum.splits)

lemma unwrap_mapping:
  "bind_e (py_get (PDict kvs) outer (PDict [])) (\<lambda>d. py_get d inner (PList [])) =
     (case map_of kvs outer of
        None \<Rightarrow> Inr (PList [])
      | Some (PDict nested) \<Rightarrow> Inr (case map_of nested inner of None \<Rightarrow> PList [] | Some x \<Rightarrow> x)
      | Some _ \<Rightarrow> Inl AttributeError)"
  by (simp split: option.splits pyval.splits)

lemma generate_music_yaml_result:
  "fst (generate_music_yaml rt u w) =
     bind_e (fst (get_user_info u w)) (\<lambda>user_info.
     bind_e (fst (get_top_artists u ''overall'' 5 w)) (\<lambda>top_artists.
     bind_e (fst (get_top_tracks u ''overall'' 5 w)) (\<lambda>top_tracks.
     bind_e (fst (get_top_albums u ''overall'' 5 w)) (\<lambda>top_albums.
     bind_e (fst (get_recent_tracks u 5 w)) (\<lambda>recent_tracks.
     bind_e (music_data rt u user_info top_artists top_tracks top_albums recent_tracks)
       (\<lambda>doc. Inr (yaml_dump rt (PList doc))))))))"
  by (simp add: generate_music_yaml_def io_bind_split py_print_def io_pure_def split: sum.splits)

lemma generate_music_yaml_frame [simp]:
  "environ (snd (generate_music_yaml rt u w)) = environ w"
  "http_get (snd (generate_music_yaml rt u w)) = http_get w"
  "clock (snd (generate_music_yaml rt u w)) = clock w"
  "output_path (snd (generate_music_yaml rt u w)) = output_path w"
  "files (snd (generate_music_yaml rt u w)) = files w"
  "openable (snd (generate_music_yaml rt u w)) = openable w"
  by (simp_all add: generate_music_yaml_def io_bind_split py_print_def io_pure_def split: sum.splits)

lemma generate_same_service:
  assumes "LASTFM_API_KEY w1 = LASTFM_API_KEY w2" and "http_get w1 = http_get w2"
  shows "fst (generate_music_yaml rt u w1) = fst (generate_music_yaml rt u w2)"
  by (simp only: generate_music_yaml_result fst_fetch_indep [OF assms])

lemma main_result:
  "main rt w =
     (if (case LASTFM_API_KEY w of None \<Rightarrow> True | Some k \<Rightarrow> k = [])
      then (Inr 1, w\<lparr>stdout := stdout w @
              [''Error: LASTFM_API_KEY environment variable is not set.'',
               ''Get an API key at: https://www.last.fm/api/account/create'']\<rparr>)
      else (case fst (generate_music_yaml rt (LASTFM_USERNAME w) w) of
              Inl e \<Rightarrow> (Inl e, snd (generate_music_yaml rt (LASTFM_USERNAME w) w))
            | Inr y \<Rightarrow>
                if openable w (output_path w)
                then (Inr 0, (snd (generate_music_yaml rt (LASTFM_USERNAME w) w))
                        \<lparr>files := (files w)(output_path w \<mapsto> y),
                         stdout := stdout (snd (generate_music_yaml rt (LASTFM_USERNAME w) w)) @
                           [''Successfully updated '' @ output_path w, ''Last updated: '' @ clock w]\<rparr>)
                else (Inl OSError, snd (generate_music_yaml rt (LASTFM_USERNAME w) w))))"
  by (simp add: main_def io_bind_split py_print_def io_pure_def write_file_def split: sum.splits)

lemma main_Inl_files: "fst (main rt w) = Inl e \<Longrightarrow> files (snd (main rt w)) = files w"
  by (auto simp: main_result split: if_splits sum.splits)

lemma main_Inr_0:
  assumes "fst (main rt w) = Inr 0"
  shows "\<exists>y. fst (generate_music_yaml rt (LASTFM_USERNAME w) w) = Inr y \<and>
           files (snd (main rt w)) = (files w)(output_path w \<mapsto> y) \<and>
           stdout (snd (main rt w)) =
             stdout (snd (generate_music_yaml rt (LASTFM_USERNAME w) w)) @
               [''Successfully updated '' @ output_path w, ''Last updated: '' @ clock w]"
  using assms by (auto simp: main_result split: if_splits sum.splits)

text \<open>What \<^verbatim>\<open>music_data\<close> raises is raised by the run: nothing catches it, and the file
  is not opened.\<close>

lemma main_aborts:
  assumes "LASTFM_API_KEY w = Some k" and "k \<noteq> []"
    and "fst (get_user_info (LASTFM_USERNAME w) w) = Inr user_info"
    and "fst (get_top_artists (LASTFM_USERNAME w) ''overall'' 5 w) = Inr top_artists"
    and "fst (get_top_tracks (LASTFM_USERNAME w) ''overall'' 5 w) = Inr top_tracks"
    and "fst (get_top_albums (LASTFM_USERNAME w) ''overall'' 5 w) = Inr top_albums"
    and "fst (get_recent_tracks (LASTFM_USERNAME w) 5 w) = Inr recent_tracks"
    and "music_data rt (LASTFM_USERNAME w) user_info top_artists top_tracks top_albums
           recent_tracks = Inl e"
  shows "fst (main rt w) = Inl e \<and> exit_status (fst (main rt w)) = 1 \<and>
         files (snd (main rt w)) = files w"
proof -
  have "fst (generate_music_yaml rt (LASTFM_USERNAME w) w) = Inl e"
    using assms by (simp add: generate_music_yaml_result)
  with assms(1,2) have m: "fst (main rt w) = Inl e" by (simp add: main_result)
  with main_Inl_files [OF m] show ?thesis by (simp add: exit_status_def)
qed

lemmas eval_sample = fetch_defs io_bind_split io_pure_def api_call_def Let_def LASTFM_API_KEY_def
  updated_params_def sample_world_def sample_service_def BASE_URL_def LASTFM_USERNAME_def

lemmas eval_document = music_data_def listening_statistics_def top_artists_block_def
  top_tracks_block_def top_albums_block_def recently_played_block_def artist_entry_def
  track_entry_def album_entry_def recent_entry_def rank_key_def eval_number

section \<open>The shape of the document\<close>

lemma listening_statistics_Inr:
  assumes "listening_statistics username user_info = Inr e"
  shows "\<exists>kvs total. user_info = PDict kvs \<and>
           format_number (case map_of kvs ''playcount'' of None \<Rightarrow> PInt 0 | Some v \<Rightarrow> v) = Inr total \<and>
           e = category ''Listening Statistics''
                 [PDict [(''key'', PStr ''Total Scrobbles''), (''value'', PStr total)],
                  PDict [(''key'', PStr ''Last.fm Profile''), (''value'', PStr username),
                         (''url'', case map_of kvs ''url'' of
                                     None \<Rightarrow> PStr (''https://www.last.fm/user/'' @ username)
                                   | Some v \<Rightarrow> v)]]"
  using assms
  by (cases user_info) (auto simp: listening_statistics_def bind_e_eq_Inr split: option.splits)

lemma block_shapes:
  "top_artists_block rt v = Inr es \<Longrightarrow>
     \<exists>items. es = (if py_truthy v then [category ''Top Artists'' items] else [])"
  "top_tracks_block rt v = Inr es \<Longrightarrow>
     \<exists>items. es = (if py_truthy v then [category ''Top Tracks'' items] else [])"
  "top_albums_block rt v = Inr es \<Longrightarrow>
     \<exists>items. es = (if py_truthy v then [category ''Top Albums'' items] else [])"
  "recently_played_block rt v = Inr es \<Longrightarrow>
     \<exists>items. es = (if py_truthy v then [category ''Recently Played'' items] else [])"
  by (auto simp: top_artists_block_def top_tracks_block_def top_albums_block_def
        recently_played_block_def bind_e_eq_Inr split: if_splits)

lemma music_data_Inr:
  assumes "music_data rt username user_info top_artists top_tracks top_albums recent_tracks = Inr doc"
  shows "\<exists>stats artists tracks albums recent.
           listening_statistics username user_info = Inr stats \<and>
           top_artists_block rt top_artists = Inr artists \<and>
           top_tracks_block rt top_tracks = Inr tracks \<and>
           top_albums_block rt top_albums = Inr albums \<and>
           recently_played_block rt recent_tracks = Inr recent \<and>
           doc = [stats] @ artists @ tracks @ albums @ recent @ [return_link]"
  using assms by (auto simp: music_data_def bind_e_eq_Inr)

lemma key_category [simp]: "py_subscript (category title items) ''key'' = Inr (PStr title)"
  by (simp add: category_def)

lemma key_return_link [simp]: "py_subscript return_link ''key'' = Inr (PStr ''return'')"
  by (simp add: return_link_def)

lemma category_neq_return_link [simp]: "category title items \<noteq> return_link"
  by (simp add: category_def return_link_def)

lemma music_data_keys:
  assumes "music_data rt username user_info top_artists top_tracks top_albums recent_tracks = Inr doc"
  shows "map (\<lambda>e. py_subscript e ''key'') doc =
           map (\<lambda>k. Inr (PStr k))
             ([''Listening Statistics''] @
              (if py_truthy top_artists then [''Top Artists''] else []) @
              (if py_truthy top_tracks then [''Top Tracks''] else []) @
              (if py_truthy top_albums then [''Top Albums''] else []) @
              (if py_truthy recent_tracks then [''Recently Played''] else []) @
              [''return''])"
    and "last doc = return_link"
    and "return_link \<notin> set (butlast doc)"
proof -
  from music_data_Inr [OF assms] obtain stats artists tracks albums recent where
    s: "listening_statistics username user_info = Inr stats" and
    b: "top_artists_block rt top_artists = Inr artists"
       "top_tracks_block rt top_tracks = Inr tracks"
       "top_albums_block rt top_albums = Inr albums"
       "recently_played_block rt recent_tracks = Inr recent" and
    d: "doc = [stats] @ artists @ tracks @ albums @ recent @ [return_link]"
    by blast
  from listening_statistics_Inr [OF s] obtain items
    where c: "stats = category ''Listening Statistics'' items" by blast
  from block_shapes(1) [OF b(1)] obtain i1
    where e1: "artists = (if py_truthy top_artists then [category ''Top Artists'' i1] else [])" ..
  from block_shapes(2) [OF b(2)] obtain i2
    where e2: "tracks = (if py_truthy top_tracks then [category ''Top Tracks'' i2] else [])" ..
  from block_shapes(3) [OF b(3)] obtain i3
    where e3: "albums = (if py_truthy top_albums then [category ''Top Albums'' i3] else [])" ..
  from block_shapes(4) [OF b(4)] obtain i4
    where e4: "recent = (if py_truthy recent_tracks then [category ''Recently Played'' i4] else [])" ..
  show "map (\<lambda>e. py_subscript e ''key'') doc =
           map (\<lambda>k. Inr (PStr k))
             ([''Listening Statistics''] @
              (if py_truthy top_artists then [''Top Artists''] else []) @
              (if py_truthy top_tracks then [''Top Tracks''] else []) @
              (if py_truthy top_albums then [''Top Albums''] else []) @
              (if py_truthy recent_tracks then [''Recently Played''] else []) @
              [''return''])"
    by (simp add: d c e1 e2 e3 e4)
  show "last doc = return_link" by (simp add: d)
  have "butlast doc = [stats] @ artists @ tracks @ albums @ recent"
    by (simp add: d butlast_append)
  then show "return_link \<notin> set (butlast doc)"
    using category_neq_return_link [of _ _, symmetric]
    by (auto simp: c e1 e2 e3 e4 split: if_splits)
qed

text \<open>
  C1: a run that succeeds (which needs a non-empty API key) writes the dump of a document
  whose top-level entries are, in this order, Listening Statistics, Top Artists, Top Tracks,
  Top Albums, Recently Played, a category being left out when its source is empty, and then
  the constant return entry, which is the last entry and occurs nowhere else.
\<close>

theorem document_order:
  assumes "fst (main rt w) = Inr 0"
  shows "\<exists>user_info top_artists top_tracks top_albums recent_tracks doc.
           fst (get_user_info (LASTFM_USERNAME w) w) = Inr user_info \<and>
           fst (get_top_artists (LASTFM_USERNAME w) ''overall'' 5 w) = Inr top_artists \<and>
           fst (get_top_tracks (LASTFM_USERNAME w) ''overall'' 5 w) = Inr top_tracks \<and>
           fst (get_top_albums (LASTFM_USERNAME w) ''overall'' 5 w) = Inr top_albums \<and>
           fst (get_recent_tracks (LASTFM_USERNAME w) 5 w) = Inr recent_tracks \<and>
           music_data rt (LASTFM_USERNAME w) user_info top_artists top_tracks top_albums
             recent_tracks = Inr doc \<and>
           files (snd (main rt w)) (output_path w) = Some (yaml_dump rt (PList doc)) \<and>
           map (\<lambda>e. py_subscript e ''key'') doc =
             map (\<lambda>k. Inr (PStr k))
               ([''Listening Statistics''] @
                (if py_truthy top_artists then [''Top Artists''] else []) @
                (if py_truthy top_tracks then [''Top Tracks''] else []) @
                (if py_truthy top_albums then [''Top Albums''] else []) @
                (if py_truthy recent_tracks then [''Recently Played''] else []) @
                [''return'']) \<and>
           last doc = PDict [(''key'', PStr ''return''), (''value'', PStr ''previous page''),
                             (''url'', PStr ''https://jaimeum.github.io'')] \<and>
           PDict [(''key'', PStr ''return''), (''value'', PStr ''previous page''),
                  (''url'', PStr ''https://jaimeum.github.io'')] \<notin> set (butlast doc)"
proof -
  let ?u = "LASTFM_USERNAME w"
  from assms obtain y where
    g: "fst (generate_music_yaml rt ?u w) = Inr y" and
    f: "files (snd (main rt w)) (output_path w) = Some y"
    by (auto simp: main_result split: if_splits sum.splits)
  from g obtain user_info top_artists top_tracks top_albums recent_tracks doc where
    r: "fst (get_user_info ?u w) = Inr user_info"
       "fst (get_top_artists ?u ''overall'' 5 w) = Inr top_artists"
       "fst (get_top_tracks ?u ''overall'' 5 w) = Inr top_tracks"
       "fst (get_top_albums ?u ''overall'' 5 w) = Inr top_albums"
       "fst (get_recent_tracks ?u 5 w) = Inr recent_tracks" and
    m: "music_data rt ?u user_info top_artists top_tracks top_albums recent_tracks = Inr doc" and
    y: "y = yaml_dump rt (PList doc)"
    unfolding generate_music_yaml_result bind_e_eq_Inr by auto
  from r m f y music_data_keys [OF m, unfolded return_link_def] show ?thesis by blast
qed

theorem document_order_witness:
  "fst (main sample_runtime sample_world) = Inr 0 \<and>
   (\<exists>user_info top_artists top_tracks top_albums recent_tracks doc.
           fst (get_user_info (LASTFM_USERNAME sample_world) sample_world) = Inr user_info \<and>
           fst (get_top_artists (LASTFM_USERNAME sample_world) ''overall'' 5 sample_world) =
             Inr top_artists \<and>
           fst (get_top_tracks (LASTFM_USERNAME sample_world) ''overall'' 5 sample_world) =
             Inr top_tracks \<and>
           fst (get_top_albums (LASTFM_USERNAME sample_world) ''overall'' 5 sample_world) =
             Inr top_albums \<and>
           fst (get_recent_tracks (LASTFM_USERNAME sample_world) 5 sample_world) =
             Inr recent_tracks \<and>
           music_data sample_runtime (LASTFM_USERNAME sample_world) user_info top_artists
             top_tracks top_albums recent_tracks = Inr doc \<and>
           files (snd (main sample_runtime sample_world)) (output_path sample_world) =
             Some (yaml_dump sample_runtime (PList doc)) \<and>
           map (\<lambda>e. py_subscript e ''key'') doc =
             map (\<lambda>k. Inr (PStr k))
               ([''Listening Statistics''] @
                (if py_truthy top_artists then [''Top Artists''] else []) @
                (if py_truthy top_tracks then [''Top Tracks''] else []) @
                (if py_truthy top_albums then [''Top Albums''] else []) @
                (if py_truthy recent_tracks then [''Recently Played''] else []) @
                [''return'']) \<and>
           last doc = PDict [(''key'', PStr ''return''), (''value'', PStr ''previous page''),
                             (''url'', PStr ''https://jaimeum.github.io'')] \<and>
           PDict [(''key'', PStr ''return''), (''value'', PStr ''previous page''),
                  (''url'', PStr ''https://jaimeum.github.io'')] \<notin> set (butlast doc))"
proof -
  have h: "fst (main sample_runtime sample_world) = Inr 0"
    by (simp add: main_result generate_music_yaml_result eval_sample eval_document
          sample_runtime_def)
  from h document_order [OF h] show ?thesis by (rule conjI)
qed

text \<open>
  C9: in the statistics entry of the document, the profile URL is the \<^verbatim>\<open>url\<close> field of
  the user information when it has one, and \<^verbatim>\<open>https://www.last.fm/user/<username>\<close>
  otherwise.
\<close>

theorem profile_url_fallback:
  assumes "music_data rt username (PDict kvs) top_artists top_tracks top_albums recent_tracks = Inr doc"
  shows "\<exists>total.
           format_number (case map_of kvs ''playcount'' of None \<Rightarrow> PInt 0 | Some v \<Rightarrow> v) =
             Inr total \<and>
           hd doc =
             PDict [(''key'', PStr ''Listening Statistics''),
                    (''value'', PList
                       [PDict [(''key'', PStr ''Total Scrobbles''), (''value'', PStr total)],
                        PDict [(''key'', PStr ''Last.fm Profile''), (''value'', PStr username),
                               (''url'', case map_of kvs ''url'' of
                                           None \<Rightarrow> PStr (''https://www.last.fm/user/'' @ username)
                                         | Some v \<Rightarrow> v)]])]"
proof -
  from music_data_Inr [OF assms] obtain stats rest
    where s: "listening_statistics username (PDict kvs) = Inr stats" and d: "doc = [stats] @ rest"
    by blast
  from listening_statistics_Inr [OF s] obtain total where
    "format_number (case map_of kvs ''playcount'' of None \<Rightarrow> PInt 0 | Some v \<Rightarrow> v) = Inr total"
    "stats = category ''Listening Statistics''
             [PDict [(''key'', PStr ''Total Scrobbles''), (''value'', PStr total)],
              PDict [(''key'', PStr ''Last.fm Profile''), (''value'', PStr username),
                     (''url'', case map_of kvs ''url'' of
                                 None \<Rightarrow> PStr (''https://www.last.fm/user/'' @ username)
                               | Some v \<Rightarrow> v)]]"
    by auto
  with d show ?thesis unfolding category_def by (intro exI [of _ total]) simp
qed

theorem profile_url_fallback_witness:
  "music_data sample_runtime ''alice'' (PDict [(''playcount'', PInt 7)])
     (PList []) (PList []) (PList []) (PList []) =
     Inr [PDict [(''key'', PStr ''Listening Statistics''),
                 (''value'', PList
                    [PDict [(''key'', PStr ''Total Scrobbles''), (''value'', PStr ''7'')],
                     PDict [(''key'', PStr ''Last.fm Profile''), (''value'', PStr ''alice''),
                            (''url'', PStr ''https://www.last.fm/user/alice'')]])],
          PDict [(''key'', PStr ''return''), (''value'', PStr ''previous page''),
                 (''url'', PStr ''https://jaimeum.github.io'')]] \<and>
   music_data sample_runtime ''alice''
     (PDict [(''playcount'', PInt 7), (''url'', PStr ''https://example.org/alice'')])
     (PList []) (PList []) (PList []) (PList []) =
     Inr [PDict [(''key'', PStr ''Listening Statistics''),
                 (''value'', PList
                    [PDict [(''key'', PStr ''Total Scrobbles''), (''value'', PStr ''7'')],
                     PDict [(''key'', PStr ''Last.fm Profile''), (''value'', PStr ''alice''),
                            (''url'', PStr ''https://example.org/alice'')]])],
          PDict [(''key'', PStr ''return''), (''value'', PStr ''previous page''),
                 (''url'', PStr ''https://jaimeum.github.io'')]]"
proof -
  let ?ret = "PDict [(''key'', PStr ''return''), (''value'', PStr ''previous page''),
                     (''url'', PStr ''https://jaimeum.github.io'')]"
  have f: "format_number (PInt 7) = Inr ''7''" by (simp add: eval_number)
  have "\<exists>rest. music_data sample_runtime ''alice'' (PDict [(''playcount'', PInt 7)])
     (PList []) (PList []) (PList []) (PList []) = Inr (rest @ [?ret]) \<and> length rest = 1"
    by (simp add: eval_document category_def return_link_def)
  then obtain r1 where h1: "music_data sample_runtime ''alice'' (PDict [(''playcount'', PInt 7)])
     (PList []) (PList []) (PList []) (PList []) = Inr (r1 @ [?ret])" and l1: "length r1 = 1"
    by blast
  have "\<exists>rest. music_data sample_runtime ''alice''
     (PDict [(''playcount'', PInt 7), (''url'', PStr ''https://example.org/alice'')])
     (PList []) (PList []) (PList []) (PList []) = Inr (rest @ [?ret]) \<and> length rest = 1"
    by (simp add: eval_document category_def return_link_def)
  then obtain r2 where h2: "music_data sample_runtime ''alice''
     (PDict [(''playcount'', PInt 7), (''url'', PStr ''https://example.org/alice'')])
     (PList []) (PList []) (PList []) (PList []) = Inr (r2 @ [?ret])" and l2: "length r2 = 1"
    by blast
  from l1 obtain e1 where e1: "r1 = [e1]" by (cases r1) auto
  from l2 obtain e2 where e2: "r2 = [e2]" by (cases r2) auto
  from profile_url_fallback [OF h1] profile_url_fallback [OF h2] f h1 h2
  show ?thesis by (simp add: e1 e2)
qed

text \<open>
  C10: the statistics entry is appended whatever the user information holds. Every
  document that is assembled has at least two entries, the statistics first and the return
  entry last. With an empty mapping as user information the statistics entry shows the
  play count \<^verbatim>\<open>0\<close> and the constructed profile URL, whatever the four lists hold; with four
  empty lists the document is exactly the statistics and the return entry.
\<close>

theorem statistics_unconditional:
  "(music_data rt username user_info top_artists top_tracks top_albums recent_tracks = Inr doc \<longrightarrow>
      2 \<le> length doc \<and>
      py_subscript (hd doc) ''key'' = Inr (PStr ''Listening Statistics'') \<and>
      last doc = PDict [(''key'', PStr ''return''), (''value'', PStr ''previous page''),
                        (''url'', PStr ''https://jaimeum.github.io'')]) \<and>
   (music_data rt username (PDict []) top_artists top_tracks top_albums recent_tracks = Inr doc' \<longrightarrow>
      hd doc' =
        PDict [(''key'', PStr ''Listening Statistics''),
               (''value'', PList
                  [PDict [(''key'', PStr ''Total Scrobbles''), (''value'', PStr ''0'')],
                   PDict [(''key'', PStr ''Last.fm Profile''), (''value'', PStr username),
                          (''url'', PStr (''https://www.last.fm/user/'' @ username))]])]) \<and>
   music_data rt username (PDict []) (PList []) (PList []) (PList []) (PList []) =
     Inr [PDict [(''key'', PStr ''Listening Statistics''),
                 (''value'', PList
                    [PDict [(''key'', PStr ''Total Scrobbles''), (''value'', PStr ''0'')],
                     PDict [(''key'', PStr ''Last.fm Profile''), (''value'', PStr username),
                            (''url'', PStr (''https://www.last.fm/user/'' @ username))]])],
          PDict [(''key'', PStr ''return''), (''value'', PStr ''previous page''),
                 (''url'', PStr ''https://jaimeum.github.io'')]]"
proof (intro conjI impI)
  assume a: "music_data rt username user_info top_artists top_tracks top_albums recent_tracks = Inr doc"
  from music_data_Inr [OF a] obtain stats mid
    where s: "listening_statistics username user_info = Inr stats"
      and d: "doc = [stats] @ mid @ [return_link]"
    by auto
  from listening_statistics_Inr [OF s] obtain items
    where c: "stats = category ''Listening Statistics'' items" by blast
  show "2 \<le> length doc" using d by simp
  show "py_subscript (hd doc) ''key'' = Inr (PStr ''Listening Statistics'')" using d c by simp
  show "last doc = PDict [(''key'', PStr ''return''), (''value'', PStr ''previous page''),
                          (''url'', PStr ''https://jaimeum.github.io'')]"
    using d by (simp add: return_link_def)
next
  assume a: "music_data rt username (PDict []) top_artists top_tracks top_albums recent_tracks = Inr doc'"
  from music_data_Inr [OF a] obtain stats rest
    where s: "listening_statistics username (PDict []) = Inr stats" and d: "doc' = [stats] @ rest"
    by blast
  from s have "stats =
        PDict [(''key'', PStr ''Listening Statistics''),
               (''value'', PList
                  [PDict [(''key'', PStr ''Total Scrobbles''), (''value'', PStr ''0'')],
                   PDict [(''key'', PStr ''Last.fm Profile''), (''value'', PStr username),
                          (''url'', PStr (''https://www.last.fm/user/'' @ username))]])]"
    by (simp add: listening_statistics_def category_def eval_number)
  with d show "hd doc' =
        PDict [(''key'', PStr ''Listening Statistics''),
               (''value'', PList
                  [PDict [(''key'', PStr ''Total Scrobbles''), (''value'', PStr ''0'')],
                   PDict [(''key'', PStr ''Last.fm Profile''), (''value'', PStr username),
                          (''url'', PStr (''https://www.last.fm/user/'' @ username))]])]"
    by simp
next
  show "music_data rt username (PDict []) (PList []) (PList []) (PList []) (PList []) =
     Inr [PDict [(''key'', PStr ''Listening Statistics''),
                 (''value'', PList
                    [PDict [(''key'', PStr ''Total Scrobbles''), (''value'', PStr ''0'')],
                     PDict [(''key'', PStr ''Last.fm Profile''), (''value'', PStr username),
                            (''url'', PStr (''https://www.last.fm/user/'' @ username))]])],
          PDict [(''key'', PStr ''return''), (''value'', PStr ''previous page''),
                 (''url'', PStr ''https://jaimeum.github.io'')]]"
    by (simp add: music_data_def listening_statistics_def top_artists_block_def
          top_tracks_block_def top_albums_block_def recently_played_block_def eval_number
          category_def return_link_def)
qed

theorem statistics_unconditional_witness:
  "music_data sample_runtime ''alice'' (PDict [])
     (PList [PDict [(''name'', PStr ''Muse''), (''playcount'', PStr ''1500'')]])
     (PList []) (PList []) (PList []) =
     Inr [PDict [(''key'', PStr ''Listening Statistics''),
                 (''value'', PList
                    [PDict [(''key'', PStr ''Total Scrobbles''), (''value'', PStr ''0'')],
                     PDict [(''key'', PStr ''Last.fm Profile''), (''value'', PStr ''alice''),
                            (''url'', PStr ''https://www.last.fm/user/alice'')]])],
          PDict [(''key'', PStr ''Top Artists''),
                 (''value'', PList
                    [PDict [(''key'', PStr ''#1''), (''value'', PStr ''Muse (1,500 plays)''),
                            (''url'', PStr [])]])],
          PDict [(''key'', PStr ''return''), (''value'', PStr ''previous page''),
                 (''url'', PStr ''https://jaimeum.github.io'')]]"
proof -
  let ?ret = "PDict [(''key'', PStr ''return''), (''value'', PStr ''previous page''),
                     (''url'', PStr ''https://jaimeum.github.io'')]"
  let ?art = "PDict [(''key'', PStr ''Top Artists''),
                 (''value'', PList
                    [PDict [(''key'', PStr ''#1''), (''value'', PStr ''Muse (1,500 plays)''),
                            (''url'', PStr [])]])]"
  have "\<exists>stats. music_data sample_runtime ''alice'' (PDict [])
     (PList [PDict [(''name'', PStr ''Muse''), (''playcount'', PStr ''1500'')]])
     (PList []) (PList []) (PList []) = Inr [stats, ?art, ?ret]"
    by (simp add: eval_document category_def return_link_def)
  then obtain stats where h: "music_data sample_runtime ''alice'' (PDict [])
     (PList [PDict [(''name'', PStr ''Muse''), (''playcount'', PStr ''1500'')]])
     (PList []) (PList []) (PList []) = Inr [stats, ?art, ?ret]"
    by blast
  from statistics_unconditional [of sample_runtime "''alice''" "PDict []"
      "PList [PDict [(''name'', PStr ''Muse''), (''playcount'', PStr ''1500'')]]"
      "PList []" "PList []" "PList []" "[stats, ?art, ?ret]" "[stats, ?art, ?ret]"] h
  show ?thesis by simp
qed

section \<open>Recent tracks\<close>

lemma enumerate_map_Inr:
  "enumerate_map f i xs = Inr ys \<Longrightarrow>
     length ys = length xs \<and> (\<forall>j<length xs. f (i + j) (xs ! j) = Inr (ys ! j))"
proof (induction xs arbitrary: i ys)
  case Nil
  then show ?case by simp
next
  case (Cons x xs)
  from Cons.prems obtain y zs where
    y: "f i x = Inr y" and zs: "enumerate_map f (Suc i) xs = Inr zs" and ys: "ys = y # zs"
    by (auto simp: bind_e_eq_Inr)
  from Cons.IH [OF zs] have
    len: "length zs = length xs" and
    nth: "\<And>j. j < length xs \<Longrightarrow> f (Suc i + j) (xs ! j) = Inr (zs ! j)"
    by auto
  show ?case
  proof (intro conjI allI impI)
    show "length ys = length (x # xs)" by (simp add: ys len)
    fix j assume "j < length (x # xs)"
    then show "f (i + j) ((x # xs) ! j) = Inr (ys ! j)"
      using y nth by (cases j) (simp_all add: ys)
  qed
qed

lemma enumerate_map_Inl:
  "enumerate_map f i pre = Inr ys \<Longrightarrow> f (i + length pre) x = Inl e \<Longrightarrow>
     enumerate_map f i (pre @ x # post) = Inl e"
proof (induction pre arbitrary: i ys)
  case Nil
  then show ?case by simp
next
  case (Cons p pre)
  from Cons.prems(1) obtain y zs where
    y: "f i p = Inr y" and zs: "enumerate_map f (Suc i) pre = Inr zs"
    by (auto simp: bind_e_eq_Inr)
  from Cons.prems(2) have "f (Suc i + length pre) x = Inl e" by simp
  from Cons.IH [OF zs this] y show ?case by simp
qed

text \<open>An item whose entry raises, its predecessors having their entries, makes the block
  raise the same error; among the recent tracks this holds for the first five items.\<close>

lemma block_Inl:
  "enumerate_map (artist_entry rt) 0 pre = Inr ys \<Longrightarrow> artist_entry rt (length pre) x = Inl e \<Longrightarrow>
     top_artists_block rt (PList (pre @ x # post)) = Inl e"
  "enumerate_map (track_entry rt) 0 pre = Inr ys \<Longrightarrow> track_entry rt (length pre) x = Inl e \<Longrightarrow>
     top_tracks_block rt (PList (pre @ x # post)) = Inl e"
  "enumerate_map (album_entry rt) 0 pre = Inr ys \<Longrightarrow> album_entry rt (length pre) x = Inl e \<Longrightarrow>
     top_albums_block rt (PList (pre @ x # post)) = Inl e"
  "enumerate_map (recent_entry rt) 0 pre = Inr ys \<Longrightarrow> recent_entry rt (length pre) x = Inl e \<Longrightarrow>
     length pre < 5 \<Longrightarrow> recently_played_block rt (PList (pre @ x # post)) = Inl e"
proof -
  show "top_artists_block rt (PList (pre @ x # post)) = Inl e"
    if "enumerate_map (artist_entry rt) 0 pre = Inr ys" "artist_entry rt (length pre) x = Inl e"
    using enumerate_map_Inl [OF that(1), of x e post] that(2)
    by (simp add: top_artists_block_def)
  show "top_tracks_block rt (PList (pre @ x # post)) = Inl e"
    if "enumerate_map (track_entry rt) 0 pre = Inr ys" "track_entry rt (length pre) x = Inl e"
    using enumerate_map_Inl [OF that(1), of x e post] that(2)
    by (simp add: top_tracks_block_def)
  show "top_albums_block rt (PList (pre @ x # post)) = Inl e"
    if "enumerate_map (album_entry rt) 0 pre = Inr ys" "album_entry rt (length pre) x = Inl e"
    using enumerate_map_Inl [OF that(1), of x e post] that(2)
    by (simp add: top_albums_block_def)
  show "recently_played_block rt (PList (pre @ x # post)) = Inl e"
    if "enumerate_map (recent_entry rt) 0 pre = Inr ys" "recent_entry rt (length pre) x = Inl e"
      "length pre < 5"
  proof -
    have s: "5 - length pre = Suc (4 - length pre)" using that(3) by simp
    have t1: "take 5 pre = pre" using that(3) by simp
    have t2: "take (5 - length pre) (x # post) = x # take (4 - length pre) post"
      by (simp only: s take_Suc_Cons)
    have "take 5 (pre @ x # post) = pre @ x # take (4 - length pre) post"
      by (simp only: take_append t1 t2)
    with enumerate_map_Inl [OF that(1), of x e "take (4 - length pre) post"] that(2)
    show ?thesis by (simp add: recently_played_block_def)
  qed
qed

lemma entry_key:
  "artist_entry rt i x = Inr e \<Longrightarrow> py_subscript e ''key'' = Inr (PStr (rank_key i))"
  "track_entry rt i x = Inr e \<Longrightarrow> py_subscript e ''key'' = Inr (PStr (rank_key i))"
  "album_entry rt i x = Inr e \<Longrightarrow> py_subscript e ''key'' = Inr (PStr (rank_key i))"
  "recent_entry rt i x = Inr e \<Longrightarrow> py_subscript e ''key'' = Inr (PStr (rank_key i))"
  by (auto simp: artist_entry_def track_entry_def album_entry_def recent_entry_def bind_e_eq_Inr)

lemma rank_key_first_five:
  "map rank_key [0..<5] = [''#1'', ''#2'', ''#3'', ''#4'', ''#5'']"
  by (simp add: upt_rec rank_key_def eval_number)

text \<open>
  C6: the Recently Played category holds at most five entries, the first five items of the
  list in their order, keyed by rank; a list of eight items gives exactly five entries,
  keyed \<^verbatim>\<open>#1\<close> to \<^verbatim>\<open>#5\<close>.
\<close>

theorem recent_tracks_truncated:
  assumes "recently_played_block rt (PList xs) = Inr es"
  shows "\<exists>items. es = (if xs = [] then []
                        else [PDict [(''key'', PStr ''Recently Played''),
                                     (''value'', PList items)]]) \<and>
           length items = min 5 (length xs) \<and>
           (\<forall>i<length items. recent_entry rt i (xs ! i) = Inr (items ! i)) \<and>
           map (\<lambda>e. py_subscript e ''key'') items =
             map (\<lambda>i. Inr (PStr (rank_key i))) [0..<length items] \<and>
           (length xs = 8 \<longrightarrow>
              length items = 5 \<and>
              map (\<lambda>e. py_subscript e ''key'') items =
                map (\<lambda>k. Inr (PStr k)) [''#1'', ''#2'', ''#3'', ''#4'', ''#5''])"
proof (cases "xs = []")
  case True
  with assms have "es = []" by (simp add: recently_played_block_def)
  with True show ?thesis by (intro exI [of _ "[]"]) simp
next
  case False
  with assms obtain items where
    m: "enumerate_map (recent_entry rt) 0 (take 5 xs) = Inr items" and
    es: "es = [PDict [(''key'', PStr ''Recently Played''), (''value'', PList items)]]"
    by (auto simp: recently_played_block_def bind_e_eq_Inr category_def)
  from enumerate_map_Inr [OF m] have
    len: "length items = min 5 (length xs)" and
    nth: "\<And>j. j < length items \<Longrightarrow> recent_entry rt j (xs ! j) = Inr (items ! j)"
    by (auto simp: min_def split: if_splits)
  have keys: "map (\<lambda>e. py_subscript e ''key'') items =
                map (\<lambda>i. Inr (PStr (rank_key i))) [0..<length items]"
    by (rule nth_equalityI) (simp_all add: entry_key(4) [OF nth])
  have eight: "map (\<lambda>e. py_subscript e ''key'') items =
                 map (\<lambda>k. Inr (PStr k)) [''#1'', ''#2'', ''#3'', ''#4'', ''#5'']"
    if "length xs = 8"
  proof -
    from that len have "length items = 5" by simp
    with keys have "map (\<lambda>e. py_subscript e ''key'') items =
        map (\<lambda>k. Inr (PStr k)) (map rank_key [0..<5])"
      by (simp add: comp_def)
    then show ?thesis by (simp only: rank_key_first_five)
  qed
  show ?thesis
    using False es len nth keys eight by (intro exI [of _ items]) simp
qed

theorem recent_tracks_truncated_witness:
  "length eight_recent = 8 \<and>
   recently_played_block sample_runtime (PList eight_recent) =
     Inr [PDict [(''key'', PStr ''Recently Played''), (''value'', PList first_five_entries)]] \<and>
   length first_five_entries = 5 \<and>
   map (\<lambda>e. py_subscript e ''key'') first_five_entries =
     map (\<lambda>k. Inr (PStr k)) [''#1'', ''#2'', ''#3'', ''#4'', ''#5'']"
proof -
  have l: "length eight_recent = 8" by (simp add: eight_recent_def)
  have h: "recently_played_block sample_runtime (PList eight_recent) =
             Inr [PDict [(''key'', PStr ''Recently Played''),
                         (''value'', PList first_five_entries)]]"
    by (simp add: eight_recent_def sample_recent_def eval_document first_five_entries_def
          category_def)
  from recent_tracks_truncated [OF h] l obtain items where
    "[PDict [(''key'', PStr ''Recently Played''), (''value'', PList first_five_entries)]] =
       (if eight_recent = [] then []
        else [PDict [(''key'', PStr ''Recently Played''), (''value'', PList items)]])"
    "length items = 5"
    "map (\<lambda>e. py_subscript e ''key'') items =
       map (\<lambda>k. Inr (PStr k)) [''#1'', ''#2'', ''#3'', ''#4'', ''#5'']"
    by auto
  moreover have "eight_recent \<noteq> []" using l by auto
  ultimately have "items = first_five_entries" by simp
  with l h \<open>length items = 5\<close>
    \<open>map (\<lambda>e. py_subscript e ''key'') items =
       map (\<lambda>k. Inr (PStr k)) [''#1'', ''#2'', ''#3'', ''#4'', ''#5'']\<close>
  show ?thesis by simp
qed

text \<open>The mapping branch of the recent-track display.\<close>

lemma recent_entry_mapping:
  assumes "map_of kvs ''name'' = Some name" and "map_of kvs ''artist'' = Some (PDict akvs)"
    and "map_of akvs ''#text'' = Some text"
  shows "\<exists>url. recent_entry rt i (PDict kvs) =
           Inr (PDict [(''key'', PStr (rank_key i)),
                       (''value'', PStr (py_format rt name @ '' - '' @ py_format rt text)),
                       (''url'', url)])"
  using assms by (simp add: recent_entry_def)

lemma recent_entry_plain_string:
  assumes "map_of kvs ''name'' = Some name" and "map_of kvs ''artist'' = Some (PStr s)"
  shows "recent_entry rt i (PDict kvs) = Inl AttributeError"
  using assms by (simp add: recent_entry_def)

text \<open>
  C3: the display string of a recent track is the name, \<^verbatim>\<open> - \<close> and the artist text,
  which is the \<^verbatim>\<open>#text\<close> field when the artist is a mapping and should be the artist
  itself when it is a plain string. The script calls \<^verbatim>\<open>.get\<close> on the artist before it
  falls back on it, so on a plain string it raises AttributeError: the item
  \<^verbatim>\<open>{"name": "Song", "artist": "Band"}\<close> ends the run and nothing is written.
\<close>

theorem recent_artist_plain_string_raises:
  "recent_entry rt i (PDict [(''name'', PStr ''Song''), (''artist'', PStr ''Band'')]) =
     Inl AttributeError \<and>
   fst (main sample_runtime plain_artist_world) = Inl AttributeError \<and>
   files (snd (main sample_runtime plain_artist_world)) = files plain_artist_world"
proof (intro conjI)
  show "recent_entry rt i (PDict [(''name'', PStr ''Song''), (''artist'', PStr ''Band'')]) =
     Inl AttributeError"
    by (simp add: recent_entry_def)
  show "fst (main sample_runtime plain_artist_world) = Inl AttributeError"
    by (simp add: main_result generate_music_yaml_result eval_sample eval_document
          sample_runtime_def plain_artist_world_def plain_artist_service_def)
  then show "files (snd (main sample_runtime plain_artist_world)) = files plain_artist_world"
    by (rule main_Inl_files)
qed

section \<open>Missing fields\<close>

lemma unwrap_defaults:
  "(fst (api_call ''user.getinfo'' [(''user'', PStr u)] w) = Inr (PDict user_data) \<longrightarrow>
      fst (get_user_info u w) =
        Inr (case map_of user_data ''user'' of None \<Rightarrow> PDict [] | Some x \<Rightarrow> x)) \<and>
   (fst (api_call ''user.gettopartists''
           [(''user'', PStr u), (''period'', PStr p), (''limit'', PInt l)] w) =
      Inr (PDict artists_data) \<longrightarrow>
      fst (get_top_artists u p l w) =
        (case map_of artists_data ''topartists'' of
           None \<Rightarrow> Inr (PList [])
         | Some (PDict nested) \<Rightarrow>
             Inr (case map_of nested ''artist'' of None \<Rightarrow> PList [] | Some x \<Rightarrow> x)
         | Some _ \<Rightarrow> Inl AttributeError)) \<and>
   (fst (api_call ''user.gettoptracks''
           [(''user'', PStr u), (''period'', PStr p), (''limit'', PInt l)] w) =
      Inr (PDict tracks_data) \<longrightarrow>
      fst (get_top_tracks u p l w) =
        (case map_of tracks_data ''toptracks'' of
           None \<Rightarrow> Inr (PList [])
         | Some (PDict nested) \<Rightarrow>
             Inr (case map_of nested ''track'' of None \<Rightarrow> PList [] | Some x \<Rightarrow> x)
         | Some _ \<Rightarrow> Inl AttributeError)) \<and>
   (fst (api_call ''user.gettopalbums''
           [(''user'', PStr u), (''period'', PStr p), (''limit'', PInt l)] w) =
      Inr (PDict albums_data) \<longrightarrow>
      fst (get_top_albums u p l w) =
        (case map_of albums_data ''topalbums'' of
           None \<Rightarrow> Inr (PList [])
         | Some (PDict nested) \<Rightarrow>
             Inr (case map_of nested ''album'' of None \<Rightarrow> PList [] | Some x \<Rightarrow> x)
         | Some _ \<Rightarrow> Inl AttributeError)) \<and>
   (fst (api_call ''user.getrecenttracks'' [(''user'', PStr u), (''limit'', PInt l)] w) =
      Inr (PDict recent_data) \<longrightarrow>
      fst (get_recent_tracks u l w) =
        (case map_of recent_data ''recenttracks'' of
           None \<Rightarrow> Inr (PList [])
         | Some (PDict nested) \<Rightarrow>
             Inr (case map_of nested ''track'' of None \<Rightarrow> PList [] | Some x \<Rightarrow> x)
         | Some _ \<Rightarrow> Inl AttributeError))"
proof (intro conjI impI)
  show "fst (get_user_info u w) =
          Inr (case map_of user_data ''user'' of None \<Rightarrow> PDict [] | Some x \<Rightarrow> x)"
    if "fst (api_call ''user.getinfo'' [(''user'', PStr u)] w) = Inr (PDict user_data)"
    using that by (simp add: fst_fetch_api_call)
  show "fst (get_top_artists u p l w) =
        (case map_of artists_data ''topartists'' of
           None \<Rightarrow> Inr (PList [])
         | Some (PDict nested) \<Rightarrow>
             Inr (case map_of nested ''artist'' of None \<Rightarrow> PList [] | Some x \<Rightarrow> x)
         | Some _ \<Rightarrow> Inl AttributeError)"
    if "fst (api_call ''user.gettopartists''
           [(''user'', PStr u), (''period'', PStr p), (''limit'', PInt l)] w) =
      Inr (PDict artists_data)"
    by (simp only: fst_fetch_api_call that bind_e_Inr unwrap_mapping)
  show "fst (get_top_tracks u p l w) =
        (case map_of tracks_data ''toptracks'' of
           None \<Rightarrow> Inr (PList [])
         | Some (PDict nested) \<Rightarrow>
             Inr (case map_of nested ''track'' of None \<Rightarrow> PList [] | Some x \<Rightarrow> x)
         | Some _ \<Rightarrow> Inl AttributeError)"
    if "fst (api_call ''user.gettoptracks''
           [(''user'', PStr u), (''period'', PStr p), (''limit'', PInt l)] w) =
      Inr (PDict tracks_data)"
    by (simp only: fst_fetch_api_call that bind_e_Inr unwrap_mapping)
  show "fst (get_top_albums u p l w) =
        (case map_of albums_data ''topalbums'' of
           None \<Rightarrow> Inr (PList [])
         | Some (PDict nested) \<Rightarrow>
             Inr (case map_of nested ''album'' of None \<Rightarrow> PList [] | Some x \<Rightarrow> x)
         | Some _ \<Rightarrow> Inl AttributeError)"
    if "fst (api_call ''user.gettopalbums''
           [(''user'', PStr u), (''period'', PStr p), (''limit'', PInt l)] w) =
      Inr (PDict albums_data)"
    by (simp only: fst_fetch_api_call that bind_e_Inr unwrap_mapping)
  show "fst (get_recent_tracks u l w) =
        (case map_of recent_data ''recenttracks'' of
           None \<Rightarrow> Inr (PList [])
         | Some (PDict nested) \<Rightarrow>
             Inr (case map_of nested ''track'' of None \<Rightarrow> PList [] | Some x \<Rightarrow> x)
         | Some _ \<Rightarrow> Inl AttributeError)"
    if "fst (api_call ''user.getrecenttracks'' [(''user'', PStr u), (''limit'', PInt l)] w) =
      Inr (PDict recent_data)"
    by (simp only: fst_fetch_api_call that bind_e_Inr unwrap_mapping)
qed

lemma entry_defaults:
  "(map_of item ''name'' = Some name \<and> map_of item ''playcount'' = Some playcount \<and>
    format_number playcount = Inr plays \<longrightarrow>
      artist_entry rt i (PDict item) =
        Inr (PDict [(''key'', PStr (rank_key i)),
                    (''value'', PStr (py_format rt name @ '' ('' @ plays @ '' plays)'')),
                    (''url'', case map_of item ''url'' of None \<Rightarrow> PStr [] | Some x \<Rightarrow> x)])) \<and>
   (map_of item ''name'' = Some name \<and> map_of item ''artist'' = Some (PDict artist) \<and>
    map_of artist ''name'' = Some artist_name \<longrightarrow>
      track_entry rt i (PDict item) =
        Inr (PDict [(''key'', PStr (rank_key i)),
                    (''value'', PStr (py_format rt name @ '' - '' @ py_format rt artist_name)),
                    (''url'', case map_of item ''url'' of None \<Rightarrow> PStr [] | Some x \<Rightarrow> x)]) \<and>
      album_entry rt i (PDict item) =
        Inr (PDict [(''key'', PStr (rank_key i)),
                    (''value'', PStr (py_format rt name @ '' - '' @ py_format rt artist_name)),
                    (''url'', case map_of item ''url'' of None \<Rightarrow> PStr [] | Some x \<Rightarrow> x)])) \<and>
   (map_of item ''name'' = Some name \<and> map_of item ''artist'' = Some (PDict artist) \<and>
    map_of artist ''#text'' = Some artist_text \<longrightarrow>
      recent_entry rt i (PDict item) =
        Inr (PDict [(''key'', PStr (rank_key i)),
                    (''value'', PStr (py_format rt name @ '' - '' @ py_format rt artist_text)),
                    (''url'', case map_of item ''url'' of None \<Rightarrow> PStr [] | Some x \<Rightarrow> x)]))"
  by (simp add: artist_entry_def track_entry_def album_entry_def recent_entry_def)

lemma entry_required:
  "(map_of bad ''name'' = None \<longrightarrow>
      artist_entry rt i (PDict bad) = Inl (KeyError ''name'') \<and>
      track_entry rt i (PDict bad) = Inl (KeyError ''name'') \<and>
      album_entry rt i (PDict bad) = Inl (KeyError ''name'') \<and>
      recent_entry rt i (PDict bad) = Inl (KeyError ''name'')) \<and>
   (map_of uncounted ''name'' = Some name_u \<and> map_of uncounted ''playcount'' = None \<longrightarrow>
      artist_entry rt i (PDict uncounted) = Inl (KeyError ''playcount'')) \<and>
   (map_of solo ''name'' = Some name_s \<and> map_of solo ''artist'' = None \<longrightarrow>
      track_entry rt i (PDict solo) = Inl (KeyError ''artist'') \<and>
      album_entry rt i (PDict solo) = Inl (KeyError ''artist'') \<and>
      recent_entry rt i (PDict solo) = Inl (KeyError ''artist'')) \<and>
   (map_of anon ''name'' = Some name_a \<and> map_of anon ''artist'' = Some (PDict nameless) \<and>
    map_of nameless ''name'' = None \<longrightarrow>
      track_entry rt i (PDict anon) = Inl (KeyError ''name'') \<and>
      album_entry rt i (PDict anon) = Inl (KeyError ''name''))"
  by (simp add: artist_entry_def track_entry_def album_entry_def recent_entry_def)

text \<open>The first error of the blocks is the error of \<^verbatim>\<open>music_data\<close>.\<close>

lemma music_data_Inl:
  "(listening_statistics un ui = Inr stats \<and>
    enumerate_map (artist_entry rt) 0 pre = Inr done_a \<and>
    artist_entry rt (length pre) x = Inl e \<longrightarrow>
      music_data rt un ui (PList (pre @ x # post)) tt tal rec = Inl e) \<and>
   (listening_statistics un ui = Inr stats \<and> top_artists_block rt ta = Inr block_a \<and>
    enumerate_map (track_entry rt) 0 pre = Inr done_t \<and>
    track_entry rt (length pre) x = Inl e \<longrightarrow>
      music_data rt un ui ta (PList (pre @ x # post)) tal rec = Inl e) \<and>
   (listening_statistics un ui = Inr stats \<and> top_artists_block rt ta = Inr block_a \<and>
    top_tracks_block rt tt = Inr block_t \<and>
    enumerate_map (album_entry rt) 0 pre = Inr done_l \<and>
    album_entry rt (length pre) x = Inl e \<longrightarrow>
      music_data rt un ui ta tt (PList (pre @ x # post)) rec = Inl e) \<and>
   (listening_statistics un ui = Inr stats \<and> top_artists_block rt ta = Inr block_a \<and>
    top_tracks_block rt tt = Inr block_t \<and> top_albums_block rt tal = Inr block_l \<and>
    enumerate_map (recent_entry rt) 0 pre = Inr done_r \<and>
    recent_entry rt (length pre) x = Inl e \<and> length pre < 5 \<longrightarrow>
      music_data rt un ui ta tt tal (PList (pre @ x # post)) = Inl e)"
proof (intro conjI impI; elim conjE)
  assume "listening_statistics un ui = Inr stats"
    "enumerate_map (artist_entry rt) 0 pre = Inr done_a" "artist_entry rt (length pre) x = Inl e"
  then show "music_data rt un ui (PList (pre @ x # post)) tt tal rec = Inl e"
    by (simp add: music_data_def block_Inl(1) [where ys = done_a])
next
  assume "listening_statistics un ui = Inr stats" "top_artists_block rt ta = Inr block_a"
    "enumerate_map (track_entry rt) 0 pre = Inr done_t" "track_entry rt (length pre) x = Inl e"
  then show "music_data rt un ui ta (PList (pre @ x # post)) tal rec = Inl e"
    by (simp add: music_data_def block_Inl(2) [where ys = done_t])
next
  assume "listening_statistics un ui = Inr stats" "top_artists_block rt ta = Inr block_a"
    "top_tracks_block rt tt = Inr block_t"
    "enumerate_map (album_entry rt) 0 pre = Inr done_l" "album_entry rt (length pre) x = Inl e"
  then show "music_data rt un ui ta tt (PList (pre @ x # post)) rec = Inl e"
    by (simp add: music_data_def block_Inl(3) [where ys = done_l])
next
  assume "listening_statistics un ui = Inr stats" "top_artists_block rt ta = Inr block_a"
    "top_tracks_block rt tt = Inr block_t" "top_albums_block rt tal = Inr block_l"
    "enumerate_map (recent_entry rt) 0 pre = Inr done_r" "recent_entry rt (length pre) x = Inl e"
    "length pre < 5"
  then show "music_data rt un ui ta tt tal (PList (pre @ x # post)) = Inl e"
    by (simp add: music_data_def block_Inl(4) [where ys = done_r])
qed

lemma run_aborts:
  "((\<exists>k. LASTFM_API_KEY w2 = Some k \<and> k \<noteq> []) \<and>
    fst (get_user_info (LASTFM_USERNAME w2) w2) = Inr got_user \<and>
    fst (get_top_artists (LASTFM_USERNAME w2) ''overall'' 5 w2) = Inr got_artists \<and>
    fst (get_top_tracks (LASTFM_USERNAME w2) ''overall'' 5 w2) = Inr got_tracks \<and>
    fst (get_top_albums (LASTFM_USERNAME w2) ''overall'' 5 w2) = Inr got_albums \<and>
    fst (get_recent_tracks (LASTFM_USERNAME w2) 5 w2) = Inr got_recent \<and>
    music_data rt (LASTFM_USERNAME w2) got_user got_artists got_tracks got_albums got_recent =
      Inl e2 \<longrightarrow>
      fst (main rt w2) = Inl e2 \<and>
      exit_status (fst (main rt w2)) = 1 \<and>
      files (snd (main rt w2)) = files w2)"
  using main_aborts [of w2 _ got_user got_artists got_tracks got_albums got_recent rt e2]
  by blast

text \<open>
  C2 as stated fails: a top artist without \<^verbatim>\<open>name\<close>, in a response that is otherwise
  that of the sample service, ends the run with KeyError.
\<close>

theorem missing_name_counterexample:
  "fst (main sample_runtime missing_name_world) = Inl (KeyError ''name'')"
  by (simp add: main_result generate_music_yaml_result eval_sample eval_document
        sample_runtime_def missing_name_world_def missing_name_service_def)

text \<open>
  C2, amended: for a response that is a JSON mapping, a missing key on an unwrap path gives
  the empty default: the user information is the \<^verbatim>\<open>user\<close> value or the empty mapping; a
  list is empty when the outer key is missing, and, the outer value being a mapping, when
  the inner key is missing (an outer value that is no mapping raises AttributeError). In an
  item a missing \<^verbatim>\<open>url\<close> becomes the empty string. The fields read by subscript are
  required: an item without \<^verbatim>\<open>name\<close>, a top artist without \<^verbatim>\<open>playcount\<close>, a track, an
  album or a recent track without \<^verbatim>\<open>artist\<close>, and a track or an album whose artist has no
  \<^verbatim>\<open>name\<close> raise KeyError. An item whose entry raises, the entries before it and the
  blocks before its own being built, makes \<^verbatim>\<open>music_data\<close> raise the same error (among the
  recent tracks, an item of the first five); and what \<^verbatim>\<open>music_data\<close> raises ends the run
  with exit status 1 and no file written.
\<close>

theorem missing_field_defaults:
  "(fst (api_call ''user.getinfo'' [(''user'', PStr u)] w) = Inr (PDict user_data) \<longrightarrow>
      fst (get_user_info u w) =
        Inr (case map_of user_data ''user'' of None \<Rightarrow> PDict [] | Some x \<Rightarrow> x)) \<and>
   (fst (api_call ''user.gettopartists''
           [(''user'', PStr u), (''period'', PStr p), (''limit'', PInt l)] w) =
      Inr (PDict artists_data) \<longrightarrow>
      fst (get_top_artists u p l w) =
        (case map_of artists_data ''topartists'' of
           None \<Rightarrow> Inr (PList [])
         | Some (PDict nested) \<Rightarrow>
             Inr (case map_of nested ''artist'' of None \<Rightarrow> PList [] | Some x \<Rightarrow> x)
         | Some _ \<Rightarrow> Inl AttributeError)) \<and>
   (fst (api_call ''user.gettoptracks''
           [(''user'', PStr u), (''period'', PStr p), (''limit'', PInt l)] w) =
      Inr (PDict tracks_data) \<longrightarrow>
      fst (get_top_tracks u p l w) =
        (case map_of tracks_data ''toptracks'' of
           None \<Rightarrow> Inr (PList [])
         | Some (PDict nested) \<Rightarrow>
             Inr (case map_of nested ''track'' of None \<Rightarrow> PList [] | Some x \<Rightarrow> x)
         | Some _ \<Rightarrow> Inl AttributeError)) \<and>
   (fst (api_call ''user.gettopalbums''
           [(''user'', PStr u), (''period'', PStr p), (''limit'', PInt l)] w) =
      Inr (PDict albums_data) \<longrightarrow>
      fst (get_top_albums u p l w) =
        (case map_of albums_data ''topalbums'' of
           None \<Rightarrow> Inr (PList [])
         | Some (PDict nested) \<Rightarrow>
             Inr (case map_of nested ''album'' of None \<Rightarrow> PList [] | Some x \<Rightarrow> x)
         | Some _ \<Rightarrow> Inl AttributeError)) \<and>
   (fst (api_call ''user.getrecenttracks'' [(''user'', PStr u), (''limit'', PInt l)] w) =
      Inr (PDict recent_data) \<longrightarrow>
      fst (get_recent_tracks u l w) =
        (case map_of recent_data ''recenttracks'' of
           None \<Rightarrow> Inr (PList [])
         | Some (PDict nested) \<Rightarrow>
             Inr (case map_of nested ''track'' of None \<Rightarrow> PList [] | Some x \<Rightarrow> x)
         | Some _ \<Rightarrow> Inl AttributeError)) \<and>
   (map_of item ''name'' = Some name \<and> map_of item ''playcount'' = Some playcount \<and>
    format_number playcount = Inr plays \<longrightarrow>
      artist_entry rt i (PDict item) =
        Inr (PDict [(''key'', PStr (rank_key i)),
                    (''value'', PStr (py_format rt name @ '' ('' @ plays @ '' plays)'')),
                    (''url'', case map_of item ''url'' of None \<Rightarrow> PStr [] | Some x \<Rightarrow> x)])) \<and>
   (map_of item ''name'' = Some name \<and> map_of item ''artist'' = Some (PDict artist) \<and>
    map_of artist ''name'' = Some artist_name \<longrightarrow>
      track_entry rt i (PDict item) =
        Inr (PDict [(''key'', PStr (rank_key i)),
                    (''value'', PStr (py_format rt name @ '' - '' @ py_format rt artist_name)),
                    (''url'', case map_of item ''url'' of None \<Rightarrow> PStr [] | Some x \<Rightarrow> x)]) \<and>
      album_entry rt i (PDict item) =
        Inr (PDict [(''key'', PStr (rank_key i)),
                    (''value'', PStr (py_format rt name @ '' - '' @ py_format rt artist_name)),
                    (''url'', case map_of item ''url'' of None \<Rightarrow> PStr [] | Some x \<Rightarrow> x)])) \<and>
   (map_of item ''name'' = Some name \<and> map_of item ''artist'' = Some (PDict artist) \<and>
    map_of artist ''#text'' = Some artist_text \<longrightarrow>
      recent_entry rt i (PDict item) =
        Inr (PDict [(''key'', PStr (rank_key i)),
                    (''value'', PStr (py_format rt name @ '' - '' @ py_format rt artist_text)),
                    (''url'', case map_of item ''url'' of None \<Rightarrow> PStr [] | Some x \<Rightarrow> x)])) \<and>
   (map_of bad ''name'' = None \<longrightarrow>
      artist_entry rt i (PDict bad) = Inl (KeyError ''name'') \<and>
      track_entry rt i (PDict bad) = Inl (KeyError ''name'') \<and>
      album_entry rt i (PDict bad) = Inl (KeyError ''name'') \<and>
      recent_entry rt i (PDict bad) = Inl (KeyError ''name'')) \<and>
   (map_of uncounted ''name'' = Some name_u \<and> map_of uncounted ''playcount'' = None \<longrightarrow>
      artist_entry rt i (PDict uncounted) = Inl (KeyError ''playcount'')) \<and>
   (map_of solo ''name'' = Some name_s \<and> map_of solo ''artist'' = None \<longrightarrow>
      track_entry rt i (PDict solo) = Inl (KeyError ''artist'') \<and>
      album_entry rt i (PDict solo) = Inl (KeyError ''artist'') \<and>
      recent_entry rt i (PDict solo) = Inl (KeyError ''artist'')) \<and>
   (map_of anon ''name'' = Some name_a \<and> map_of anon ''artist'' = Some (PDict nameless) \<and>
    map_of nameless ''name'' = None \<longrightarrow>
      track_entry rt i (PDict anon) = Inl (KeyError ''name'') \<and>
      album_entry rt i (PDict anon) = Inl (KeyError ''name'')) \<and>
   (listening_statistics un ui = Inr stats \<and>
    enumerate_map (artist_entry rt) 0 pre = Inr done_a \<and>
    artist_entry rt (length pre) x = Inl e \<longrightarrow>
      music_data rt un ui (PList (pre @ x # post)) tt tal rec = Inl e) \<and>
   (listening_statistics un ui = Inr stats \<and> top_artists_block rt ta = Inr block_a \<and>
    enumerate_map (track_entry rt) 0 pre = Inr done_t \<and>
    track_entry rt (length pre) x = Inl e \<longrightarrow>
      music_data rt un ui ta (PList (pre @ x # post)) tal rec = Inl e) \<and>
   (listening_statistics un ui = Inr stats \<and> top_artists_block rt ta = Inr block_a \<and>
    top_tracks_block rt tt = Inr block_t \<and>
    enumerate_map (album_entry rt) 0 pre = Inr done_l \<and>
    album_entry rt (length pre) x = Inl e \<longrightarrow>
      music_data rt un ui ta tt (PList (pre @ x # post)) rec = Inl e) \<and>
   (listening_statistics un ui = Inr stats \<and> top_artists_block rt ta = Inr block_a \<and>
    top_tracks_block rt tt = Inr block_t \<and> top_albums_block rt tal = Inr block_l \<and>
    enumerate_map (recent_entry rt) 0 pre = Inr done_r \<and>
    recent_entry rt (length pre) x = Inl e \<and> length pre < 5 \<longrightarrow>
      music_data rt un ui ta tt tal (PList (pre @ x # post)) = Inl e) \<and>
   ((\<exists>k. LASTFM_API_KEY w2 = Some k \<and> k \<noteq> []) \<and>
    fst (get_user_info (LASTFM_USERNAME w2) w2) = Inr got_user \<and>
    fst (get_top_artists (LASTFM_USERNAME w2) ''overall'' 5 w2) = Inr got_artists \<and>
    fst (get_top_tracks (LASTFM_USERNAME w2) ''overall'' 5 w2) = Inr got_tracks \<and>
    fst (get_top_albums (LASTFM_USERNAME w2) ''overall'' 5 w2) = Inr got_albums \<and>
    fst (get_recent_tracks (LASTFM_USERNAME w2) 5 w2) = Inr got_recent \<and>
    music_data rt (LASTFM_USERNAME w2) got_user got_artists got_tracks got_albums got_recent =
      Inl e2 \<longrightarrow>
      fst (main rt w2) = Inl e2 \<and>
      exit_status (fst (main rt w2)) = 1 \<and>
      files (snd (main rt w2)) = files w2)"
proof -
  have 1: "(fst (api_call ''user.getinfo'' [(''user'', PStr u)] w) = Inr (PDict user_data) \<longrightarrow>
      fst (get_user_info u w) =
        Inr (case map_of user_data ''user'' of None \<Rightarrow> PDict [] | Some x \<Rightarrow> x)) \<and>
   (fst (api_call ''user.gettopartists''
           [(''user'', PStr u), (''period'', PStr p), (''limit'', PInt l)] w) =
      Inr (PDict artists_data) \<longrightarrow>
      fst (get_top_artists u p l w) =
        (case map_of artists_data ''topartists'' of
           None \<Rightarrow> Inr (PList [])
         | Some (PDict nested) \<Rightarrow>
             Inr (case map_of nested ''artist'' of None \<Rightarrow> PList [] | Some x \<Rightarrow> x)
         | Some _ \<Rightarrow> Inl AttributeError)) \<and>
   (fst (api_call ''user.gettoptracks''
           [(''user'', PStr u), (''period'', PStr p), (''limit'', PInt l)] w) =
      Inr (PDict tracks_data) \<longrightarrow>
      fst (get_top_tracks u p l w) =
        (case map_of tracks_data ''toptracks'' of
           None \<Rightarrow> Inr (PList [])
         | Some (PDict nested) \<Rightarrow>
             Inr (case map_of nested ''track'' of None \<Rightarrow> PList [] | Some x \<Rightarrow> x)
         | Some _ \<Rightarrow> Inl AttributeError)) \<and>
   (fst (api_call ''user.gettopalbums''
           [(''user'', PStr u), (''period'', PStr p), (''limit'', PInt l)] w) =
      Inr (PDict albums_data) \<longrightarrow>
      fst (get_top_albums u p l w) =
        (case map_of albums_data ''topalbums'' of
           None \<Rightarrow> Inr (PList [])
         | Some (PDict nested) \<Rightarrow>
             Inr (case map_of nested ''album'' of None \<Rightarrow> PList [] | Some x \<Rightarrow> x)
         | Some _ \<Rightarrow> Inl AttributeError)) \<and>
   (fst (api_call ''user.getrecenttracks'' [(''user'', PStr u), (''limit'', PInt l)] w) =
      Inr (PDict recent_data) \<longrightarrow>
      fst (get_recent_tracks u l w) =
        (case map_of recent_data ''recenttracks'' of
           None \<Rightarrow> Inr (PList [])
         | Some (PDict nested) \<Rightarrow>
             Inr (case map_of nested ''track'' of None \<Rightarrow> PList [] | Some x \<Rightarrow> x)
         | Some _ \<Rightarrow> Inl AttributeError))"
    by (rule unwrap_defaults)
  have 2: "(map_of item ''name'' = Some name \<and> map_of item ''playcount'' = Some playcount \<and>
    format_number playcount = Inr plays \<longrightarrow>
      artist_entry rt i (PDict item) =
        Inr (PDict [(''key'', PStr (rank_key i)),
                    (''value'', PStr (py_format rt name @ '' ('' @ plays @ '' plays)'')),
                    (''url'', case map_of item ''url'' of None \<Rightarrow> PStr [] | Some x \<Rightarrow> x)])) \<and>
   (map_of item ''name'' = Some name \<and> map_of item ''artist'' = Some (PDict artist) \<and>
    map_of artist ''name'' = Some artist_name \<longrightarrow>
      track_entry rt i (PDict item) =
        Inr (PDict [(''key'', PStr (rank_key i)),
                    (''value'', PStr (py_format rt name @ '' - '' @ py_format rt artist_name)),
                    (''url'', case map_of item ''url'' of None \<Rightarrow> PStr [] | Some x \<Rightarrow> x)]) \<and>
      album_entry rt i (PDict item) =
        Inr (PDict [(''key'', PStr (rank_key i)),
                    (''value'', PStr (py_format rt name @ '' - '' @ py_format rt artist_name)),
                    (''url'', case map_of item ''url'' of None \<Rightarrow> PStr [] | Some x \<Rightarrow> x)])) \<and>
   (map_of item ''name'' = Some name \<and> map_of item ''artist'' = Some (PDict artist) \<and>
    map_of artist ''#text'' = Some artist_text \<longrightarrow>
      recent_entry rt i (PDict item) =
        Inr (PDict [(''key'', PStr (rank_key i)),
                    (''value'', PStr (py_format rt name @ '' - '' @ py_format rt artist_text)),
                    (''url'', case map_of item ''url'' of None \<Rightarrow> PStr [] | Some x \<Rightarrow> x)]))"
    by (rule entry_defaults)
  have 3: "(map_of bad ''name'' = None \<longrightarrow>
      artist_entry rt i (PDict bad) = Inl (KeyError ''name'') \<and>
      track_entry rt i (PDict bad) = Inl (KeyError ''name'') \<and>
      album_entry rt i (PDict bad) = Inl (KeyError ''name'') \<and>
      recent_entry rt i (PDict bad) = Inl (KeyError ''name'')) \<and>
   (map_of uncounted ''name'' = Some name_u \<and> map_of uncounted ''playcount'' = None \<longrightarrow>
      artist_entry rt i (PDict uncounted) = Inl (KeyError ''playcount'')) \<and>
   (map_of solo ''name'' = Some name_s \<and> map_of solo ''artist'' = None \<longrightarrow>
      track_entry rt i (PDict solo) = Inl (KeyError ''artist'') \<and>
      album_entry rt i (PDict solo) = Inl (KeyError ''artist'') \<and>
      recent_entry rt i (PDict solo) = Inl (KeyError ''artist'')) \<and>
   (map_of anon ''name'' = Some name_a \<and> map_of anon ''artist'' = Some (PDict nameless) \<and>
    map_of nameless ''name'' = None \<longrightarrow>
      track_entry rt i (PDict anon) = Inl (KeyError ''name'') \<and>
      album_entry rt i (PDict anon) = Inl (KeyError ''name''))"
    by (rule entry_required)
  have 4: "(listening_statistics un ui = Inr stats \<and>
    enumerate_map (artist_entry rt) 0 pre = Inr done_a \<and>
    artist_entry rt (length pre) x = Inl e \<longrightarrow>
      music_data rt un ui (PList (pre @ x # post)) tt tal rec = Inl e) \<and>
   (listening_statistics un ui = Inr stats \<and> top_artists_block rt ta = Inr block_a \<and>
    enumerate_map (track_entry rt) 0 pre = Inr done_t \<and>
    track_entry rt (length pre) x = Inl e \<longrightarrow>
      music_data rt un ui ta (PList (pre @ x # post)) tal rec = Inl e) \<and>
   (listening_statistics un ui = Inr stats \<and> top_artists_block rt ta = Inr block_a \<and>
    top_tracks_block rt tt = Inr block_t \<and>
    enumerate_map (album_entry rt) 0 pre = Inr done_l \<and>
    album_entry rt (length pre) x = Inl e \<longrightarrow>
      music_data rt un ui ta tt (PList (pre @ x # post)) rec = Inl e) \<and>
   (listening_statistics un ui = Inr stats \<and> top_artists_block rt ta = Inr block_a \<and>
    top_tracks_block rt tt = Inr block_t \<and> top_albums_block rt tal = Inr block_l \<and>
    enumerate_map (recent_entry rt) 0 pre = Inr done_r \<and>
    recent_entry rt (length pre) x = Inl e \<and> length pre < 5 \<longrightarrow>
      music_data rt un ui ta tt tal (PList (pre @ x # post)) = Inl e)"
    by (rule music_data_Inl)
  have 5: "((\<exists>k. LASTFM_API_KEY w2 = Some k \<and> k \<noteq> []) \<and>
    fst (get_user_info (LASTFM_USERNAME w2) w2) = Inr got_user \<and>
    fst (get_top_artists (LASTFM_USERNAME w2) ''overall'' 5 w2) = Inr got_artists \<and>
    fst (get_top_tracks (LASTFM_USERNAME w2) ''overall'' 5 w2) = Inr got_tracks \<and>
    fst (get_top_albums (LASTFM_USERNAME w2) ''overall'' 5 w2) = Inr got_albums \<and>
    fst (get_recent_tracks (LASTFM_USERNAME w2) 5 w2) = Inr got_recent \<and>
    music_data rt (LASTFM_USERNAME w2) got_user got_artists got_tracks got_albums got_recent =
      Inl e2 \<longrightarrow>
      fst (main rt w2) = Inl e2 \<and>
      exit_status (fst (main rt w2)) = 1 \<and>
      files (snd (main rt w2)) = files w2)"
    by (rule run_aborts)
  from 1 2 3 4 5 show ?thesis by (elim conjE, intro conjI) assumption+
qed

theorem missing_field_defaults_witness:
  "fst (api_call ''user.getinfo'' [(''user'', PStr ''jaimeum19'')] sample_world) =
     Inr (PDict [(''user'', PDict [(''playcount'', PStr ''1234567'')])]) \<and>
   fst (get_user_info ''jaimeum19'' sample_world) = Inr (PDict [(''playcount'', PStr ''1234567'')]) \<and>
   fst (api_call ''user.gettopartists''
          [(''user'', PStr ''jaimeum19''), (''period'', PStr ''overall''), (''limit'', PInt 5)]
          sample_world) =
     Inr (PDict [(''topartists'', PDict [(''artist'', PList
            [PDict [(''name'', PStr ''Muse''), (''playcount'', PStr ''1500''),
                    (''url'', PStr ''https://www.last.fm/music/Muse'')]])])]) \<and>
   fst (get_top_artists ''jaimeum19'' ''overall'' 5 sample_world) =
     Inr (PList [PDict [(''name'', PStr ''Muse''), (''playcount'', PStr ''1500''),
                        (''url'', PStr ''https://www.last.fm/music/Muse'')]]) \<and>
   fst (api_call ''user.gettoptracks''
          [(''user'', PStr ''jaimeum19''), (''period'', PStr ''overall''), (''limit'', PInt 5)]
          sample_world) = Inr (PDict []) \<and>
   fst (get_top_tracks ''jaimeum19'' ''overall'' 5 sample_world) = Inr (PList []) \<and>
   fst (api_call ''user.gettopalbums''
          [(''user'', PStr ''jaimeum19''), (''period'', PStr ''overall''), (''limit'', PInt 5)]
          sample_world) = Inr (PDict [(''topalbums'', PDict [(''album'', PList [])])]) \<and>
   fst (get_top_albums ''jaimeum19'' ''overall'' 5 sample_world) = Inr (PList []) \<and>
   fst (api_call ''user.getrecenttracks'' [(''user'', PStr ''jaimeum19''), (''limit'', PInt 5)]
          sample_world) =
     Inr (PDict [(''recenttracks'', PDict [(''track'', PList
            [PDict [(''name'', PStr ''Time''),
                    (''artist'', PDict [(''#text'', PStr ''Pink Floyd'')])]])])]) \<and>
   fst (get_recent_tracks ''jaimeum19'' 5 sample_world) =
     Inr (PList [PDict [(''name'', PStr ''Time''),
                        (''artist'', PDict [(''#text'', PStr ''Pink Floyd'')])]]) \<and>
   format_number (PStr ''1500'') = Inr ''1,500'' \<and>
   artist_entry sample_runtime 0 (PDict full_item) =
     Inr (PDict [(''key'', PStr ''#1''), (''value'', PStr ''Time (1,500 plays)''),
                 (''url'', PStr [])]) \<and>
   track_entry sample_runtime 0 (PDict full_item) =
     Inr (PDict [(''key'', PStr ''#1''), (''value'', PStr ''Time - Pink Floyd''),
                 (''url'', PStr [])]) \<and>
   album_entry sample_runtime 0 (PDict full_item) =
     Inr (PDict [(''key'', PStr ''#1''), (''value'', PStr ''Time - Pink Floyd''),
                 (''url'', PStr [])]) \<and>
   recent_entry sample_runtime 0 (PDict full_item) =
     Inr (PDict [(''key'', PStr ''#1''), (''value'', PStr ''Time - Pink Floyd''),
                 (''url'', PStr [])]) \<and>
   artist_entry sample_runtime 0 (PDict [(''playcount'', PStr ''1500'')]) = Inl (KeyError ''name'') \<and>
   track_entry sample_runtime 0 (PDict [(''playcount'', PStr ''1500'')]) = Inl (KeyError ''name'') \<and>
   album_entry sample_runtime 0 (PDict [(''playcount'', PStr ''1500'')]) = Inl (KeyError ''name'') \<and>
   recent_entry sample_runtime 0 (PDict [(''playcount'', PStr ''1500'')]) = Inl (KeyError ''name'') \<and>
   artist_entry sample_runtime 0 (PDict [(''name'', PStr ''Muse'')]) = Inl (KeyError ''playcount'') \<and>
   track_entry sample_runtime 0 (PDict [(''name'', PStr ''Time'')]) = Inl (KeyError ''artist'') \<and>
   album_entry sample_runtime 0 (PDict [(''name'', PStr ''Time'')]) = Inl (KeyError ''artist'') \<and>
   recent_entry sample_runtime 0 (PDict [(''name'', PStr ''Time'')]) = Inl (KeyError ''artist'') \<and>
   track_entry sample_runtime 0 (PDict [(''name'', PStr ''Time''), (''artist'', PDict [(''#text'', PStr ''Pink Floyd'')])]) = Inl (KeyError ''name'') \<and>
   album_entry sample_runtime 0 (PDict [(''name'', PStr ''Time''), (''artist'', PDict [(''#text'', PStr ''Pink Floyd'')])]) = Inl (KeyError ''name'') \<and>
   listening_statistics ''jaimeum19'' (PDict []) =
     Inr (PDict [(''key'', PStr ''Listening Statistics''),
            (''value'', PList
               [PDict [(''key'', PStr ''Total Scrobbles''), (''value'', PStr ''0'')],
                PDict [(''key'', PStr ''Last.fm Profile''), (''value'', PStr ''jaimeum19''),
                       (''url'', PStr ''https://www.last.fm/user/jaimeum19'')]])]) \<and>
   enumerate_map (artist_entry sample_runtime) 0 [PDict full_item] =
     Inr [PDict [(''key'', PStr ''#1''), (''value'', PStr ''Time (1,500 plays)''), (''url'', PStr [])]] \<and>
   enumerate_map (track_entry sample_runtime) 0 [PDict full_item] =
     Inr [PDict [(''key'', PStr ''#1''), (''value'', PStr ''Time - Pink Floyd''), (''url'', PStr [])]] \<and>
   enumerate_map (album_entry sample_runtime) 0 [PDict full_item] =
     Inr [PDict [(''key'', PStr ''#1''), (''value'', PStr ''Time - Pink Floyd''), (''url'', PStr [])]] \<and>
   enumerate_map (recent_entry sample_runtime) 0 [PDict full_item] =
     Inr [PDict [(''key'', PStr ''#1''), (''value'', PStr ''Time - Pink Floyd''), (''url'', PStr [])]] \<and>
   artist_entry sample_runtime 1 (PDict [(''playcount'', PStr ''1500'')]) = Inl (KeyError ''name'') \<and>
   music_data sample_runtime ''jaimeum19'' (PDict [])
     (PList ([PDict full_item] @ PDict [(''playcount'', PStr ''1500'')] # [PDict full_item]))
     (PList []) (PList []) (PList []) = Inl (KeyError ''name'') \<and>
   music_data sample_runtime ''jaimeum19'' (PDict []) (PList [])
     (PList ([PDict full_item] @ PDict [(''playcount'', PStr ''1500'')] # [PDict full_item]))
     (PList []) (PList []) = Inl (KeyError ''name'') \<and>
   music_data sample_runtime ''jaimeum19'' (PDict []) (PList []) (PList [])
     (PList ([PDict full_item] @ PDict [(''playcount'', PStr ''1500'')] # [PDict full_item]))
     (PList []) = Inl (KeyError ''name'') \<and>
   music_data sample_runtime ''jaimeum19'' (PDict []) (PList []) (PList []) (PList [])
     (PList ([PDict full_item] @ PDict [(''playcount'', PStr ''1500'')] # [PDict full_item])) =
     Inl (KeyError ''name'') \<and>
   LASTFM_API_KEY missing_name_world = Some ''secret'' \<and>
   fst (get_user_info (LASTFM_USERNAME missing_name_world) missing_name_world) =
     Inr (PDict [(''playcount'', PStr ''1234567'')]) \<and>
   fst (get_top_artists (LASTFM_USERNAME missing_name_world) ''overall'' 5 missing_name_world) =
     Inr (PList [PDict [(''playcount'', PStr ''1500'')]]) \<and>
   fst (get_top_tracks (LASTFM_USERNAME missing_name_world) ''overall'' 5 missing_name_world) =
     Inr (PList []) \<and>
   fst (get_top_albums (LASTFM_USERNAME missing_name_world) ''overall'' 5 missing_name_world) =
     Inr (PList []) \<and>
   fst (get_recent_tracks (LASTFM_USERNAME missing_name_world) 5 missing_name_world) =
     Inr (PList [PDict [(''name'', PStr ''Time''), (''artist'', PDict [(''#text'', PStr ''Pink Floyd'')])]]) \<and>
   music_data sample_runtime (LASTFM_USERNAME missing_name_world)
     (PDict [(''playcount'', PStr ''1234567'')]) (PList [PDict [(''playcount'', PStr ''1500'')]])
     (PList []) (PList []) (PList [PDict [(''name'', PStr ''Time''), (''artist'', PDict [(''#text'', PStr ''Pink Floyd'')])]]) = Inl (KeyError ''name'') \<and>
   fst (main sample_runtime missing_name_world) = Inl (KeyError ''name'') \<and>
   exit_status (fst (main sample_runtime missing_name_world)) = 1 \<and>
   files (snd (main sample_runtime missing_name_world)) (output_path missing_name_world) =
     Some ''old content''"
proof -
  have calls:
    "fst (api_call ''user.getinfo'' [(''user'', PStr ''jaimeum19'')] sample_world) =
       Inr (PDict [(''user'', PDict [(''playcount'', PStr ''1234567'')])])"
    "fst (api_call ''user.gettopartists''
          [(''user'', PStr ''jaimeum19''), (''period'', PStr ''overall''), (''limit'', PInt 5)]
          sample_world) =
     Inr (PDict [(''topartists'', PDict [(''artist'', PList
            [PDict [(''name'', PStr ''Muse''), (''playcount'', PStr ''1500''),
                    (''url'', PStr ''https://www.last.fm/music/Muse'')]])])])"
    "fst (api_call ''user.gettoptracks''
          [(''user'', PStr ''jaimeum19''), (''period'', PStr ''overall''), (''limit'', PInt 5)]
          sample_world) = Inr (PDict [])"
    "fst (api_call ''user.gettopalbums''
          [(''user'', PStr ''jaimeum19''), (''period'', PStr ''overall''), (''limit'', PInt 5)]
          sample_world) = Inr (PDict [(''topalbums'', PDict [(''album'', PList [])])])"
    "fst (api_call ''user.getrecenttracks'' [(''user'', PStr ''jaimeum19''), (''limit'', PInt 5)]
          sample_world) =
     Inr (PDict [(''recenttracks'', PDict [(''track'', PList
            [PDict [(''name'', PStr ''Time''),
                    (''artist'', PDict [(''#text'', PStr ''Pink Floyd'')])]])])])"
    by (simp_all add: eval_sample)
  have item:
    "map_of full_item ''name'' = Some (PStr ''Time'')"
    "map_of full_item ''playcount'' = Some (PStr ''1500'')"
    "map_of full_item ''artist'' =
       Some (PDict [(''name'', PStr ''Pink Floyd''), (''#text'', PStr ''Pink Floyd'')])"
    "map_of full_item ''url'' = None"
    "format_number (PStr ''1500'') = Inr ''1,500''"
    "rank_key 0 = ''#1''"
    by (simp_all add: full_item_def rank_key_def eval_number)
  have pre:
    "listening_statistics ''jaimeum19'' (PDict []) =
     Inr (PDict [(''key'', PStr ''Listening Statistics''),
            (''value'', PList
               [PDict [(''key'', PStr ''Total Scrobbles''), (''value'', PStr ''0'')],
                PDict [(''key'', PStr ''Last.fm Profile''), (''value'', PStr ''jaimeum19''),
                       (''url'', PStr ''https://www.last.fm/user/jaimeum19'')]])])"
    "enumerate_map (artist_entry sample_runtime) 0 [PDict full_item] =
     Inr [PDict [(''key'', PStr ''#1''), (''value'', PStr ''Time (1,500 plays)''), (''url'', PStr [])]]"
    "enumerate_map (track_entry sample_runtime) 0 [PDict full_item] =
     Inr [PDict [(''key'', PStr ''#1''), (''value'', PStr ''Time - Pink Floyd''), (''url'', PStr [])]]"
    "enumerate_map (album_entry sample_runtime) 0 [PDict full_item] =
     Inr [PDict [(''key'', PStr ''#1''), (''value'', PStr ''Time - Pink Floyd''), (''url'', PStr [])]]"
    "enumerate_map (recent_entry sample_runtime) 0 [PDict full_item] =
     Inr [PDict [(''key'', PStr ''#1''), (''value'', PStr ''Time - Pink Floyd''), (''url'', PStr [])]]"
    "top_artists_block sample_runtime (PList []) = Inr []"
    "top_tracks_block sample_runtime (PList []) = Inr []"
    "top_albums_block sample_runtime (PList []) = Inr []"
    by (simp_all add: full_item_def eval_document category_def)
  have world:
    "LASTFM_API_KEY missing_name_world = Some ''secret''"
    "fst (get_user_info (LASTFM_USERNAME missing_name_world) missing_name_world) =
     Inr (PDict [(''playcount'', PStr ''1234567'')])"
    "fst (get_top_artists (LASTFM_USERNAME missing_name_world) ''overall'' 5 missing_name_world) =
     Inr (PList [PDict [(''playcount'', PStr ''1500'')]])"
    "fst (get_top_tracks (LASTFM_USERNAME missing_name_world) ''overall'' 5 missing_name_world) =
     Inr (PList [])"
    "fst (get_top_albums (LASTFM_USERNAME missing_name_world) ''overall'' 5 missing_name_world) =
     Inr (PList [])"
    "fst (get_recent_tracks (LASTFM_USERNAME missing_name_world) 5 missing_name_world) =
     Inr (PList [PDict [(''name'', PStr ''Time''), (''artist'', PDict [(''#text'', PStr ''Pink Floyd'')])]])"
    "files missing_name_world (output_path missing_name_world) = Some ''old content''"
    by (simp_all add: eval_sample missing_name_world_def missing_name_service_def)
  have fails:
    "music_data sample_runtime (LASTFM_USERNAME missing_name_world)
     (PDict [(''playcount'', PStr ''1234567'')]) (PList [PDict [(''playcount'', PStr ''1500'')]])
     (PList []) (PList []) (PList [PDict [(''name'', PStr ''Time''), (''artist'', PDict [(''#text'', PStr ''Pink Floyd'')])]]) = Inl (KeyError ''name'')"
    by (simp add: eval_document LASTFM_USERNAME_def missing_name_world_def sample_world_def)
  note t = missing_field_defaults [where u = "''jaimeum19''" and w = sample_world and p = "''overall''"
      and l = 5 and rt = sample_runtime and i = 0
      and user_data = "[(''user'', PDict [(''playcount'', PStr ''1234567'')])]"
      and artists_data = "[(''topartists'', PDict [(''artist'', PList
            [PDict [(''name'', PStr ''Muse''), (''playcount'', PStr ''1500''),
                    (''url'', PStr ''https://www.last.fm/music/Muse'')]])])]"
      and tracks_data = "[]"
      and albums_data = "[(''topalbums'', PDict [(''album'', PList [])])]"
      and recent_data = "[(''recenttracks'', PDict [(''track'', PList
            [PDict [(''name'', PStr ''Time''),
                    (''artist'', PDict [(''#text'', PStr ''Pink Floyd'')])]])])]"
      and item = full_item and name = "PStr ''Time''" and playcount = "PStr ''1500''"
      and plays = "''1,500''"
      and artist = "[(''name'', PStr ''Pink Floyd''), (''#text'', PStr ''Pink Floyd'')]"
      and artist_name = "PStr ''Pink Floyd''" and artist_text = "PStr ''Pink Floyd''"
      and bad = "[(''playcount'', PStr ''1500'')]"
      and uncounted = "[(''name'', PStr ''Muse'')]" and name_u = "PStr ''Muse''"
      and solo = "[(''name'', PStr ''Time'')]" and name_s = "PStr ''Time''"
      and anon = "[(''name'', PStr ''Time''), (''artist'', PDict [(''#text'', PStr ''Pink Floyd'')])]" and name_a = "PStr ''Time''"
      and nameless = "[(''#text'', PStr ''Pink Floyd'')]"
      and un = "''jaimeum19''" and ui = "PDict []"
      and stats = "PDict [(''key'', PStr ''Listening Statistics''),
            (''value'', PList
               [PDict [(''key'', PStr ''Total Scrobbles''), (''value'', PStr ''0'')],
                PDict [(''key'', PStr ''Last.fm Profile''), (''value'', PStr ''jaimeum19''),
                       (''url'', PStr ''https://www.last.fm/user/jaimeum19'')]])]"
      and pre = "[PDict full_item]" and x = "PDict [(''playcount'', PStr ''1500'')]" and post = "[PDict full_item]"
      and e = "KeyError ''name''"
      and done_a = "[PDict [(''key'', PStr ''#1''), (''value'', PStr ''Time (1,500 plays)''), (''url'', PStr [])]]"
      and done_t = "[PDict [(''key'', PStr ''#1''), (''value'', PStr ''Time - Pink Floyd''), (''url'', PStr [])]]"
      and done_l = "[PDict [(''key'', PStr ''#1''), (''value'', PStr ''Time - Pink Floyd''), (''url'', PStr [])]]"
      and done_r = "[PDict [(''key'', PStr ''#1''), (''value'', PStr ''Time - Pink Floyd''), (''url'', PStr [])]]"
      and ta = "PList []" and tt = "PList []" and tal = "PList []" and rec = "PList []"
      and block_a = "[]" and block_t = "[]" and block_l = "[]"
      and ?w2.0 = missing_name_world
      and got_user = "PDict [(''playcount'', PStr ''1234567'')]"
      and got_artists = "PList [PDict [(''playcount'', PStr ''1500'')]]"
      and got_tracks = "PList []" and got_albums = "PList []"
      and got_recent = "PList [PDict [(''name'', PStr ''Time''), (''artist'', PDict [(''#text'', PStr ''Pink Floyd'')])]]"
      and ?e2.0 = "KeyError ''name''"]
  have good:
    "artist_entry sample_runtime 0 (PDict full_item) =
       Inr (PDict [(''key'', PStr ''#1''), (''value'', PStr ''Time (1,500 plays)''), (''url'', PStr [])])"
    "track_entry sample_runtime 0 (PDict full_item) =
       Inr (PDict [(''key'', PStr ''#1''), (''value'', PStr ''Time - Pink Floyd''), (''url'', PStr [])])"
    "album_entry sample_runtime 0 (PDict full_item) =
       Inr (PDict [(''key'', PStr ''#1''), (''value'', PStr ''Time - Pink Floyd''), (''url'', PStr [])])"
    "recent_entry sample_runtime 0 (PDict full_item) =
       Inr (PDict [(''key'', PStr ''#1''), (''value'', PStr ''Time - Pink Floyd''), (''url'', PStr [])])"
    by (simp_all add: full_item_def eval_document)
  have second:
    "artist_entry sample_runtime (Suc 0) (PDict [(''playcount'', PStr ''1500'')]) =
       Inl (KeyError ''name'')"
    "track_entry sample_runtime (Suc 0) (PDict [(''playcount'', PStr ''1500'')]) =
       Inl (KeyError ''name'')"
    "album_entry sample_runtime (Suc 0) (PDict [(''playcount'', PStr ''1500'')]) =
       Inl (KeyError ''name'')"
    "recent_entry sample_runtime (Suc 0) (PDict [(''playcount'', PStr ''1500'')]) =
       Inl (KeyError ''name'')"
    by (simp_all add: eval_document)
  from t calls item good second pre world fails show ?thesis by (simp add: exit_status_def)
qed

section \<open>Configuration, failure and determinism of the run\<close>

text \<open>
  C4: when \<^verbatim>\<open>LASTFM_API_KEY\<close> is unset or empty, \<^verbatim>\<open>main\<close> returns 1, which is the exit
  status; no request is sent and no file is changed.
\<close>

theorem missing_api_key:
  assumes "environ w ''LASTFM_API_KEY'' = None \<or> environ w ''LASTFM_API_KEY'' = Some []"
  shows "fst (main rt w) = Inr 1 \<and>
         exit_status (fst (main rt w)) = 1 \<and>
         requests (snd (main rt w)) = requests w \<and>
         files (snd (main rt w)) = files w"
  using assms by (auto simp: main_result LASTFM_API_KEY_def exit_status_def)

theorem missing_api_key_witness:
  "environ no_key_world ''LASTFM_API_KEY'' = None \<and>
   fst (main sample_runtime no_key_world) = Inr 1 \<and>
   exit_status (fst (main sample_runtime no_key_world)) = 1 \<and>
   requests (snd (main sample_runtime no_key_world)) = [] \<and>
   files (snd (main sample_runtime no_key_world)) (output_path no_key_world) = Some ''old content'' \<and>
   environ empty_key_world ''LASTFM_API_KEY'' = Some [] \<and>
   fst (main sample_runtime empty_key_world) = Inr 1 \<and>
   exit_status (fst (main sample_runtime empty_key_world)) = 1 \<and>
   requests (snd (main sample_runtime empty_key_world)) = [] \<and>
   files (snd (main sample_runtime empty_key_world)) (output_path empty_key_world) = Some ''old content''"
proof -
  have n: "environ no_key_world ''LASTFM_API_KEY'' = None"
    by (simp add: no_key_world_def)
  have e: "environ empty_key_world ''LASTFM_API_KEY'' = Some []"
    by (simp add: empty_key_world_def)
  have "requests no_key_world = []" "files no_key_world (output_path no_key_world) = Some ''old content''"
       "requests empty_key_world = []" "files empty_key_world (output_path empty_key_world) = Some ''old content''"
    by (simp_all add: no_key_world_def empty_key_world_def sample_world_def)
  with n e missing_api_key [of no_key_world sample_runtime]
    missing_api_key [of empty_key_world sample_runtime]
  show ?thesis by (simp add: exit_status_def)
qed

text \<open>
  C8: a value that \<^verbatim>\<open>int\<close> cannot coerce makes \<^verbatim>\<open>format_number\<close> raise the error of
  \<^verbatim>\<open>int\<close>. Nothing catches it: the statistics and an artist entry raise it in turn. A run
  whose user information carries such a play count ends with it, and so does a run one of
  whose top artists carries it (the statistics and the artists before it being formatted):
  the exit status is 1 and no file is written.
\<close>

theorem format_failure_aborts:
  assumes "py_int v = Inl e"
  shows "format_number v = Inl e \<and>
         (map_of kvs ''playcount'' = Some v \<longrightarrow>
            listening_statistics username (PDict kvs) = Inl e) \<and>
         (map_of item ''name'' = Some name \<and> map_of item ''playcount'' = Some v \<longrightarrow>
            artist_entry rt i (PDict item) = Inl e) \<and>
         ((\<exists>k. LASTFM_API_KEY w = Some k \<and> k \<noteq> []) \<and>
          fst (get_user_info (LASTFM_USERNAME w) w) = Inr (PDict kvs) \<and>
          map_of kvs ''playcount'' = Some v \<and>
          fst (get_top_artists (LASTFM_USERNAME w) ''overall'' 5 w) = Inr top_artists \<and>
          fst (get_top_tracks (LASTFM_USERNAME w) ''overall'' 5 w) = Inr top_tracks \<and>
          fst (get_top_albums (LASTFM_USERNAME w) ''overall'' 5 w) = Inr top_albums \<and>
          fst (get_recent_tracks (LASTFM_USERNAME w) 5 w) = Inr recent_tracks \<longrightarrow>
            fst (main rt w) = Inl e \<and>
            exit_status (fst (main rt w)) = 1 \<and>
            files (snd (main rt w)) = files w) \<and>
         ((\<exists>k. LASTFM_API_KEY w2 = Some k \<and> k \<noteq> []) \<and>
          fst (get_user_info (LASTFM_USERNAME w2) w2) = Inr user_info \<and>
          listening_statistics (LASTFM_USERNAME w2) user_info = Inr stats \<and>
          fst (get_top_artists (LASTFM_USERNAME w2) ''overall'' 5 w2) =
            Inr (PList (pre @ PDict item # post)) \<and>
          enumerate_map (artist_entry rt) 0 pre = Inr formatted \<and>
          map_of item ''name'' = Some name \<and> map_of item ''playcount'' = Some v \<and>
          fst (get_top_tracks (LASTFM_USERNAME w2) ''overall'' 5 w2) = Inr top_tracks2 \<and>
          fst (get_top_albums (LASTFM_USERNAME w2) ''overall'' 5 w2) = Inr top_albums2 \<and>
          fst (get_recent_tracks (LASTFM_USERNAME w2) 5 w2) = Inr recent_tracks2 \<longrightarrow>
            fst (main rt w2) = Inl e \<and>
            exit_status (fst (main rt w2)) = 1 \<and>
            files (snd (main rt w2)) = files w2)"
proof -
  have f: "format_number v = Inl e" using assms by (simp add: format_number_def)
  have s: "listening_statistics username (PDict kvs) = Inl e"
    if "map_of kvs ''playcount'' = Some v" for username
    using that f by (simp add: listening_statistics_def)
  have a: "artist_entry rt i (PDict item) = Inl e"
    if "map_of item ''name'' = Some name \<and> map_of item ''playcount'' = Some v" for i
    using that f by (simp add: artist_entry_def)
  have u: "fst (main rt w) = Inl e \<and> exit_status (fst (main rt w)) = 1 \<and>
           files (snd (main rt w)) = files w"
    if h: "(\<exists>k. LASTFM_API_KEY w = Some k \<and> k \<noteq> []) \<and>
          fst (get_user_info (LASTFM_USERNAME w) w) = Inr (PDict kvs) \<and>
          map_of kvs ''playcount'' = Some v \<and>
          fst (get_top_artists (LASTFM_USERNAME w) ''overall'' 5 w) = Inr top_artists \<and>
          fst (get_top_tracks (LASTFM_USERNAME w) ''overall'' 5 w) = Inr top_tracks \<and>
          fst (get_top_albums (LASTFM_USERNAME w) ''overall'' 5 w) = Inr top_albums \<and>
          fst (get_recent_tracks (LASTFM_USERNAME w) 5 w) = Inr recent_tracks"
  proof -
    from h obtain k where k: "LASTFM_API_KEY w = Some k" "k \<noteq> []" by blast
    have "music_data rt (LASTFM_USERNAME w) (PDict kvs) top_artists top_tracks top_albums
            recent_tracks = Inl e"
      using h s by (simp add: music_data_def)
    with h show ?thesis by (intro main_aborts [OF k]) simp_all
  qed
  have t: "fst (main rt w2) = Inl e \<and> exit_status (fst (main rt w2)) = 1 \<and>
           files (snd (main rt w2)) = files w2"
    if h: "(\<exists>k. LASTFM_API_KEY w2 = Some k \<and> k \<noteq> []) \<and>
          fst (get_user_info (LASTFM_USERNAME w2) w2) = Inr user_info \<and>
          listening_statistics (LASTFM_USERNAME w2) user_info = Inr stats \<and>
          fst (get_top_artists (LASTFM_USERNAME w2) ''overall'' 5 w2) =
            Inr (PList (pre @ PDict item # post)) \<and>
          enumerate_map (artist_entry rt) 0 pre = Inr formatted \<and>
          map_of item ''name'' = Some name \<and> map_of item ''playcount'' = Some v \<and>
          fst (get_top_tracks (LASTFM_USERNAME w2) ''overall'' 5 w2) = Inr top_tracks2 \<and>
          fst (get_top_albums (LASTFM_USERNAME w2) ''overall'' 5 w2) = Inr top_albums2 \<and>
          fst (get_recent_tracks (LASTFM_USERNAME w2) 5 w2) = Inr recent_tracks2"
  proof -
    from h obtain k where k: "LASTFM_API_KEY w2 = Some k" "k \<noteq> []" by blast
    from h have "artist_entry rt (length pre) (PDict item) = Inl e" by (intro a) simp
    with h have "top_artists_block rt (PList (pre @ PDict item # post)) = Inl e"
      by (intro block_Inl(1) [of rt pre formatted]) simp_all
    with h have "music_data rt (LASTFM_USERNAME w2) user_info (PList (pre @ PDict item # post))
            top_tracks2 top_albums2 recent_tracks2 = Inl e"
      by (simp add: music_data_def)
    with h show ?thesis by (intro main_aborts [OF k]) simp_all
  qed
  from f s a u t show ?thesis by blast
qed

theorem format_failure_aborts_witness:
  "py_int (PStr ''n/a'') = Inl ValueError \<and>
   format_number (PStr ''n/a'') = Inl ValueError \<and>
   listening_statistics ''jaimeum19'' (PDict [(''playcount'', PStr ''n/a'')]) = Inl ValueError \<and>
   artist_entry sample_runtime 1 (PDict [(''name'', PStr ''Queen''), (''playcount'', PStr ''n/a'')]) =
     Inl ValueError \<and>
   LASTFM_API_KEY bad_count_world = Some ''secret'' \<and>
   fst (get_user_info (LASTFM_USERNAME bad_count_world) bad_count_world) =
     Inr (PDict [(''playcount'', PStr ''n/a'')]) \<and>
   fst (get_top_artists (LASTFM_USERNAME bad_count_world) ''overall'' 5 bad_count_world) =
     Inr (PList [PDict [(''name'', PStr ''Muse''), (''playcount'', PStr ''1500''),
                        (''url'', PStr ''https://www.last.fm/music/Muse'')]]) \<and>
   fst (get_top_tracks (LASTFM_USERNAME bad_count_world) ''overall'' 5 bad_count_world) =
     Inr (PList []) \<and>
   fst (get_top_albums (LASTFM_USERNAME bad_count_world) ''overall'' 5 bad_count_world) =
     Inr (PList []) \<and>
   fst (get_recent_tracks (LASTFM_USERNAME bad_count_world) 5 bad_count_world) =
     Inr (PList [PDict [(''name'', PStr ''Time''),
                        (''artist'', PDict [(''#text'', PStr ''Pink Floyd'')])]]) \<and>
   fst (main sample_runtime bad_count_world) = Inl ValueError \<and>
   exit_status (fst (main sample_runtime bad_count_world)) = 1 \<and>
   files (snd (main sample_runtime bad_count_world)) (output_path bad_count_world) =
     Some ''old content'' \<and>
   LASTFM_API_KEY bad_artist_count_world = Some ''secret'' \<and>
   fst (get_user_info (LASTFM_USERNAME bad_artist_count_world) bad_artist_count_world) =
     Inr (PDict [(''playcount'', PStr ''1234567'')]) \<and>
   listening_statistics (LASTFM_USERNAME bad_artist_count_world)
       (PDict [(''playcount'', PStr ''1234567'')]) =
     Inr (PDict [(''key'', PStr ''Listening Statistics''),
                 (''value'', PList
                    [PDict [(''key'', PStr ''Total Scrobbles''), (''value'', PStr ''1,234,567'')],
                     PDict [(''key'', PStr ''Last.fm Profile''), (''value'', PStr ''jaimeum19''),
                            (''url'', PStr ''https://www.last.fm/user/jaimeum19'')]])]) \<and>
   fst (get_top_artists (LASTFM_USERNAME bad_artist_count_world) ''overall'' 5
          bad_artist_count_world) =
     Inr (PList ([PDict [(''name'', PStr ''Muse''), (''playcount'', PStr ''1500'')]] @
                 PDict [(''name'', PStr ''Queen''), (''playcount'', PStr ''n/a'')] #
                 [PDict [(''name'', PStr ''Rush''), (''playcount'', PStr ''800'')]])) \<and>
   enumerate_map (artist_entry sample_runtime) 0
       [PDict [(''name'', PStr ''Muse''), (''playcount'', PStr ''1500'')]] =
     Inr [PDict [(''key'', PStr ''#1''), (''value'', PStr ''Muse (1,500 plays)''),
                 (''url'', PStr [])]] \<and>
   fst (get_top_tracks (LASTFM_USERNAME bad_artist_count_world) ''overall'' 5
          bad_artist_count_world) = Inr (PList []) \<and>
   fst (get_top_albums (LASTFM_USERNAME bad_artist_count_world) ''overall'' 5
          bad_artist_count_world) = Inr (PList []) \<and>
   fst (get_recent_tracks (LASTFM_USERNAME bad_artist_count_world) 5 bad_artist_count_world) =
     Inr (PList [PDict [(''name'', PStr ''Time''),
                        (''artist'', PDict [(''#text'', PStr ''Pink Floyd'')])]]) \<and>
   fst (main sample_runtime bad_artist_count_world) = Inl ValueError \<and>
   exit_status (fst (main sample_runtime bad_artist_count_world)) = 1 \<and>
   files (snd (main sample_runtime bad_artist_count_world))
     (output_path bad_artist_count_world) = Some ''old content''"
proof -
  have v: "py_int (PStr ''n/a'') = Inl ValueError"
    by (simp add: int_of_string_non_numeric [of "CHR ''n''"] is_digit_def is_space_def)
  have k: "LASTFM_API_KEY bad_count_world = Some ''secret''"
          "LASTFM_API_KEY bad_artist_count_world = Some ''secret''"
    by (simp_all add: LASTFM_API_KEY_def bad_count_world_def bad_artist_count_world_def
          sample_world_def)
  have u: "fst (get_user_info (LASTFM_USERNAME bad_count_world) bad_count_world) =
     Inr (PDict [(''playcount'', PStr ''n/a'')])"
    "fst (get_top_artists (LASTFM_USERNAME bad_count_world) ''overall'' 5 bad_count_world) =
     Inr (PList [PDict [(''name'', PStr ''Muse''), (''playcount'', PStr ''1500''),
                        (''url'', PStr ''https://www.last.fm/music/Muse'')]])"
    "fst (get_top_tracks (LASTFM_USERNAME bad_count_world) ''overall'' 5 bad_count_world) =
     Inr (PList [])"
    "fst (get_top_albums (LASTFM_USERNAME bad_count_world) ''overall'' 5 bad_count_world) =
     Inr (PList [])"
    "fst (get_recent_tracks (LASTFM_USERNAME bad_count_world) 5 bad_count_world) =
     Inr (PList [PDict [(''name'', PStr ''Time''),
                        (''artist'', PDict [(''#text'', PStr ''Pink Floyd'')])]])"
    by (simp_all add: eval_sample bad_count_world_def bad_count_service_def)
  have a: "fst (get_user_info (LASTFM_USERNAME bad_artist_count_world) bad_artist_count_world) =
     Inr (PDict [(''playcount'', PStr ''1234567'')])"
    "fst (get_top_artists (LASTFM_USERNAME bad_artist_count_world) ''overall'' 5
          bad_artist_count_world) =
     Inr (PList ([PDict [(''name'', PStr ''Muse''), (''playcount'', PStr ''1500'')]] @
                 PDict [(''name'', PStr ''Queen''), (''playcount'', PStr ''n/a'')] #
                 [PDict [(''name'', PStr ''Rush''), (''playcount'', PStr ''800'')]]))"
    "fst (get_top_tracks (LASTFM_USERNAME bad_artist_count_world) ''overall'' 5
          bad_artist_count_world) = Inr (PList [])"
    "fst (get_top_albums (LASTFM_USERNAME bad_artist_count_world) ''overall'' 5
          bad_artist_count_world) = Inr (PList [])"
    "fst (get_recent_tracks (LASTFM_USERNAME bad_artist_count_world) 5 bad_artist_count_world) =
     Inr (PList [PDict [(''name'', PStr ''Time''),
                        (''artist'', PDict [(''#text'', PStr ''Pink Floyd'')])]])"
    by (simp_all add: eval_sample bad_artist_count_world_def bad_artist_count_service_def)
  have n: "LASTFM_USERNAME bad_artist_count_world = ''jaimeum19''"
    by (simp add: LASTFM_USERNAME_def bad_artist_count_world_def sample_world_def)
  have s: "listening_statistics (LASTFM_USERNAME bad_artist_count_world)
       (PDict [(''playcount'', PStr ''1234567'')]) =
     Inr (PDict [(''key'', PStr ''Listening Statistics''),
                 (''value'', PList
                    [PDict [(''key'', PStr ''Total Scrobbles''), (''value'', PStr ''1,234,567'')],
                     PDict [(''key'', PStr ''Last.fm Profile''), (''value'', PStr ''jaimeum19''),
                            (''url'', PStr ''https://www.last.fm/user/jaimeum19'')]])])"
    by (simp add: n listening_statistics_def category_def eval_number)
  have p: "enumerate_map (artist_entry sample_runtime) 0
       [PDict [(''name'', PStr ''Muse''), (''playcount'', PStr ''1500'')]] =
     Inr [PDict [(''key'', PStr ''#1''), (''value'', PStr ''Muse (1,500 plays)''),
                 (''url'', PStr [])]]"
    by (simp add: artist_entry_def rank_key_def eval_number)
  have f: "files bad_count_world (output_path bad_count_world) = Some ''old content''"
          "files bad_artist_count_world (output_path bad_artist_count_world) = Some ''old content''"
    by (simp_all add: bad_count_world_def bad_artist_count_world_def sample_world_def)
  from format_failure_aborts [OF v,
      where kvs = "[(''playcount'', PStr ''n/a'')]" and username = "''jaimeum19''"
        and item = "[(''name'', PStr ''Queen''), (''playcount'', PStr ''n/a'')]"
        and name = "PStr ''Queen''" and rt = sample_runtime and i = 1 and w = bad_count_world
        and top_artists = "PList [PDict [(''name'', PStr ''Muse''), (''playcount'', PStr ''1500''),
                     (''url'', PStr ''https://www.last.fm/music/Muse'')]]"
        and top_tracks = "PList []" and top_albums = "PList []"
        and recent_tracks = "PList [PDict [(''name'', PStr ''Time''),
                     (''artist'', PDict [(''#text'', PStr ''Pink Floyd'')])]]"
        and ?w2.0 = bad_artist_count_world
        and user_info = "PDict [(''playcount'', PStr ''1234567'')]"
        and stats = "PDict [(''key'', PStr ''Listening Statistics''),
                 (''value'', PList
                    [PDict [(''key'', PStr ''Total Scrobbles''), (''value'', PStr ''1,234,567'')],
                     PDict [(''key'', PStr ''Last.fm Profile''), (''value'', PStr ''jaimeum19''),
                            (''url'', PStr ''https://www.last.fm/user/jaimeum19'')]])]"
        and pre = "[PDict [(''name'', PStr ''Muse''), (''playcount'', PStr ''1500'')]]"
        and post = "[PDict [(''name'', PStr ''Rush''), (''playcount'', PStr ''800'')]]"
        and formatted = "[PDict [(''key'', PStr ''#1''), (''value'', PStr ''Muse (1,500 plays)''),
                 (''url'', PStr [])]]"
        and ?top_tracks2.0 = "PList []" and ?top_albums2.0 = "PList []"
        and ?recent_tracks2.0 = "PList [PDict [(''name'', PStr ''Time''),
                     (''artist'', PDict [(''#text'', PStr ''Pink Floyd'')])]]"]
    v k u a s p f
  show ?thesis by (simp add: exit_status_def)
qed

text \<open>
  C5: the text that is written depends on the configuration and on the responses only.
  Two runs with the same API key, the same user name and the same service produce the same
  text, whatever the clock, the files and the console held before; when both succeed the
  file has the same content. The time stamp is the last line printed, and the clock is read
  nowhere else.
\<close>

theorem output_deterministic:
  assumes "environ w1 ''LASTFM_API_KEY'' = environ w2 ''LASTFM_API_KEY''"
    and "environ w1 ''LASTFM_USERNAME'' = environ w2 ''LASTFM_USERNAME''"
    and "http_get w1 = http_get w2"
  shows "fst (generate_music_yaml rt (LASTFM_USERNAME w1) w1) =
           fst (generate_music_yaml rt (LASTFM_USERNAME w2) w2) \<and>
         (fst (main rt w1) = Inr 0 \<and> fst (main rt w2) = Inr 0 \<longrightarrow>
            files (snd (main rt w1)) (output_path w1) = files (snd (main rt w2)) (output_path w2)) \<and>
         (fst (main rt w1) = Inr 0 \<longrightarrow>
            last (stdout (snd (main rt w1))) = ''Last updated: '' @ clock w1)"
proof (intro conjI impI)
  have k: "LASTFM_API_KEY w1 = LASTFM_API_KEY w2" and u: "LASTFM_USERNAME w1 = LASTFM_USERNAME w2"
    using assms by (simp_all add: LASTFM_API_KEY_def LASTFM_USERNAME_def)
  show g: "fst (generate_music_yaml rt (LASTFM_USERNAME w1) w1) =
           fst (generate_music_yaml rt (LASTFM_USERNAME w2) w2)"
    using generate_same_service [OF k assms(3)] u by simp
  {
    assume "fst (main rt w1) = Inr 0 \<and> fst (main rt w2) = Inr 0"
    then show "files (snd (main rt w1)) (output_path w1) = files (snd (main rt w2)) (output_path w2)"
      using g by (auto dest!: main_Inr_0)
  }
  {
    assume "fst (main rt w1) = Inr 0"
    then show "last (stdout (snd (main rt w1))) = ''Last updated: '' @ clock w1"
      by (auto dest!: main_Inr_0)
  }
qed

theorem output_deterministic_witness:
  "environ sample_world ''LASTFM_API_KEY'' = environ later_world ''LASTFM_API_KEY'' \<and>
   environ sample_world ''LASTFM_USERNAME'' = environ later_world ''LASTFM_USERNAME'' \<and>
   http_get sample_world = http_get later_world \<and>
   clock sample_world \<noteq> clock later_world \<and>
   files sample_world \<noteq> files later_world \<and>
   fst (main sample_runtime sample_world) = Inr 0 \<and>
   fst (main sample_runtime later_world) = Inr 0 \<and>
   files (snd (main sample_runtime sample_world)) (output_path sample_world) =
     files (snd (main sample_runtime later_world)) (output_path later_world) \<and>
   last (stdout (snd (main sample_runtime sample_world))) = ''Last updated: 2024-01-01 00:00:00'' \<and>
   last (stdout (snd (main sample_runtime later_world))) = ''Last updated: 2025-06-30 12:00:00''"
proof -
  have a: "environ sample_world ''LASTFM_API_KEY'' = environ later_world ''LASTFM_API_KEY''"
          "environ sample_world ''LASTFM_USERNAME'' = environ later_world ''LASTFM_USERNAME''"
          "http_get sample_world = http_get later_world"
    by (simp_all add: later_world_def)
  have c: "clock sample_world \<noteq> clock later_world"
    by (simp add: later_world_def sample_world_def)
  have f: "files sample_world \<noteq> files later_world"
  proof
    assume "files sample_world = files later_world"
    then have "files sample_world (output_path sample_world) =
                 files later_world (output_path sample_world)" by simp
    then show False by (simp add: later_world_def sample_world_def)
  qed
  have s: "fst (main sample_runtime sample_world) = Inr 0"
    by (simp add: main_result generate_music_yaml_result eval_sample eval_document
          sample_runtime_def)
  have l: "fst (main sample_runtime later_world) = Inr 0"
    by (simp add: main_result generate_music_yaml_result eval_sample eval_document
          sample_runtime_def later_world_def)
  have ck: "clock sample_world = ''2024-01-01 00:00:00''" "clock later_world = ''2025-06-30 12:00:00''"
    by (simp_all add: later_world_def sample_world_def)
  from output_deterministic [OF a, of sample_runtime]
       output_deterministic [OF a [symmetric], of sample_runtime] a c f s l ck
  show ?thesis by simp
qed

end
